theory Spec2Isabelle
  imports Complex_Main
begin

section \<open>Alert persistence and retention (pkg/database/alerts.go)\<close>

text \<open>
  A shallow embedding of \<^verbatim>\<open>pkg/database/alerts.go\<close>: bulk ingestion of alerts
  (\<^verbatim>\<open>CreateAlertBulk\<close>), the filter compiler (\<^verbatim>\<open>BuildAlertRequestFromFilter\<close>),
  querying and deleting by filter, the cascading delete and the retention flush.
  Strings are byte strings, Go's \<^verbatim>\<open>int\<close> and \<^verbatim>\<open>int64\<close> are \<open>int\<close> (wrap-around is
  written out where the source can reach it), instants are nanoseconds since the Unix
  epoch and durations are nanoseconds.
\<close>

type_synonym Time = int
type_synonym Duration = int

subsection \<open>Errors and outcomes\<close>

text \<open>
  The sentinel errors of the package. An error value of the model is the cause of the Go
  error (\<^verbatim>\<open>errors.Cause\<close>); the message that \<^verbatim>\<open>errors.Wrap\<close> adds is not modelled.
  \<open>DurationSyntax\<close> is the error of \<^verbatim>\<open>time.ParseDuration\<close>, \<open>EmptyTime\<close> the
  \<^verbatim>\<open>fmt.Errorf("Empty time now() - ...")\<close> of the filter compiler, \<open>StoreError\<close> an
  error of the entity store that the source wraps without replacing its cause, and
  \<open>OtherError\<close> any further cause a collaborator may report.
\<close>

datatype db_error = Unavailable | ConstraintError | NotFoundError

datatype error =
    UserNotExists | QueryFail | ParseTimeFail | ParseDurationFail | MarshalFail
  | BulkError | DeleteFail | InvalidIPOrRange | InvalidFilter | ParseType
  | DurationSyntax | EmptyTime | StoreError db_error | OtherError string

text \<open>A call either returns or panics (index out of range).\<close>

datatype 'a outcome = Returns 'a | Panics

subsection \<open>The Go library functions the file calls\<close>

definition is_digit :: "char \<Rightarrow> bool" where
  "is_digit c \<longleftrightarrow> (48::nat) \<le> of_char c \<and> of_char c \<le> (57::nat)"

definition digit_val :: "char \<Rightarrow> nat" where
  "digit_val c = of_char c - 48"

definition digit_char :: "nat \<Rightarrow> char" where
  "digit_char n = char_of (48 + n mod 10)"

fun dec :: "nat \<Rightarrow> string" where
  "dec n = (if n < 10 then [digit_char n] else dec (n div 10) @ [digit_char n])"

declare dec.simps [simp del]

text \<open>\<^verbatim>\<open>strconv.Itoa\<close>.\<close>

definition Itoa :: "int \<Rightarrow> string" where
  "Itoa i = (if i < 0 then CHR ''-'' # dec (nat (- i)) else dec (nat i))"

text \<open>\<^verbatim>\<open>strconv.ParseBool\<close>: exactly these twelve spellings are accepted.\<close>

definition ParseBool :: "string \<Rightarrow> bool option" where
  "ParseBool str =
     (if str \<in> set [''1'', ''t'', ''T'', ''TRUE'', ''true'', ''True''] then Some True
      else if str \<in> set [''0'', ''f'', ''F'', ''FALSE'', ''false'', ''False''] then Some False
      else None)"

text \<open>
  \<^verbatim>\<open>time.ParseDuration\<close>, whose input is \<^verbatim>\<open>[-+]?([0-9]*(\.[0-9]*)?[a-z]+)+\<close>.
  \<open>leadingInt\<close> and \<open>leadingFraction\<close> are the helpers of the \<^verbatim>\<open>time\<close> package, on
  \<^verbatim>\<open>uint64\<close> with their overflow checks. The contribution of a fraction is computed by the
  library in \<^verbatim>\<open>float64\<close>; the model computes it in exact integer arithmetic, and no
  statement below is about a duration with a fraction.
\<close>

fun leadingInt :: "nat \<Rightarrow> string \<Rightarrow> (nat \<times> string) option" where
  "leadingInt x [] = Some (x, [])"
| "leadingInt x (c # s) =
     (if \<not> is_digit c then Some (x, c # s)
      else if x > 2 ^ 63 div 10 then None
      else (let x' = x * 10 + digit_val c
            in if x' > 2 ^ 63 then None else leadingInt x' s))"

fun leadingFraction :: "nat \<Rightarrow> nat \<Rightarrow> bool \<Rightarrow> string \<Rightarrow> nat \<times> nat \<times> string" where
  "leadingFraction x scale overflow [] = (x, scale, [])"
| "leadingFraction x scale overflow (c # s) =
     (if \<not> is_digit c then (x, scale, c # s)
      else if overflow then leadingFraction x scale True s
      else if x > (2 ^ 63 - 1) div 10 then leadingFraction x scale True s
      else (let y = x * 10 + digit_val c
            in if y > 2 ^ 63 then leadingFraction x scale True s
               else leadingFraction y (scale * 10) False s))"

definition unitMap :: "string \<Rightarrow> nat option" where
  "unitMap u =
     (if u = ''ns'' then Some 1
      else if u = ''us'' then Some 1000
      else if u = [CHR 0xC2, CHR 0xB5, CHR ''s''] then Some 1000
      else if u = [CHR 0xCE, CHR 0xBC, CHR ''s''] then Some 1000
      else if u = ''ms'' then Some 1000000
      else if u = ''s'' then Some 1000000000
      else if u = ''m'' then Some 60000000000
      else if u = ''h'' then Some 3600000000000
      else None)"

definition unit_char :: "char \<Rightarrow> bool" where
  "unit_char c \<longleftrightarrow> \<not> (c = CHR ''.'' \<or> is_digit c)"

text \<open>One round of the loop of \<^verbatim>\<open>ParseDuration\<close>: a number, a unit, and the rest.\<close>

definition duration_component :: "string \<Rightarrow> (nat \<times> string) option" where
  "duration_component s =
     (if s = [] \<or> unit_char (hd s) then None
      else case leadingInt 0 s of
        None \<Rightarrow> None
      | Some (v, s1) \<Rightarrow>
          (let pre = (length s \<noteq> length s1);
               dot = (s1 \<noteq> [] \<and> hd s1 = CHR ''.'');
               fr = (if dot then leadingFraction 0 1 False (tl s1) else (0, 1, s1));
               f = fst fr; scale = fst (snd fr); s2 = snd (snd fr);
               post = (dot \<and> length (tl s1) \<noteq> length s2)
           in if \<not> pre \<and> \<not> post then None
              else (let u = takeWhile unit_char s2; s3 = dropWhile unit_char s2
                    in if u = [] then None
                       else case unitMap u of
                         None \<Rightarrow> None
                       | Some unit \<Rightarrow>
                           if v > 2 ^ 63 div unit then None
                           else (let v1 = v * unit;
                                     v2 = (if f > 0 then v1 + (f * unit) div scale else v1)
                                 in if f > 0 \<and> v2 > 2 ^ 63 then None else Some (v2, s3)))))"

text \<open>
  The loop itself. Every round consumes at least the unit, which the test on the lengths
  records for the termination of the definition.
\<close>

fun duration_components :: "nat \<Rightarrow> string \<Rightarrow> nat option" where
  "duration_components d s =
     (if s = [] then Some d
      else case duration_component s of
        None \<Rightarrow> None
      | Some (v, rest) \<Rightarrow>
          if length rest < length s
          then (let d' = (d + v) mod 2 ^ 64
                in if d' > 2 ^ 63 then None else duration_components d' rest)
          else None)"

declare duration_components.simps [simp del]

definition ParseDuration :: "string \<Rightarrow> Duration option" where
  "ParseDuration orig =
     (let neg = (orig \<noteq> [] \<and> hd orig = CHR ''-'');
          s = (if orig \<noteq> [] \<and> (hd orig = CHR ''-'' \<or> hd orig = CHR ''+'') then tl orig else orig)
      in if s = ''0'' then Some 0
         else if s = [] then None
         else case duration_components 0 s of
           None \<Rightarrow> None
         | Some d \<Rightarrow>
             if neg then Some (- int d)
             else if d > 2 ^ 63 - 1 then None
             else Some (int d))"

text \<open>Negation of an \<^verbatim>\<open>int64\<close>: the least value is its own negation.\<close>

definition neg64 :: "int \<Rightarrow> int" where
  "neg64 d = (if d = - (2 ^ 63) then d else - d)"

text \<open>\<^verbatim>\<open>t.Add(d)\<close> and \<^verbatim>\<open>t.IsZero()\<close>; the zero instant is 1 January of year 1, UTC.\<close>

definition Add :: "Time \<Rightarrow> Duration \<Rightarrow> Time" where
  "Add t d = t + d"

definition IsZero :: "Time \<Rightarrow> bool" where
  "IsZero t \<longleftrightarrow> t = - 62135596800 * 1000000000"

text \<open>The proleptic Gregorian calendar: days since 1970-01-01 to a date and back.\<close>

definition civil_from_days :: "int \<Rightarrow> int \<times> int \<times> int" where
  "civil_from_days z =
     (let z' = z + 719468;
          era = z' div 146097;
          doe = z' - era * 146097;
          yoe = (doe - doe div 1460 + doe div 36524 - doe div 146096) div 365;
          y = yoe + era * 400;
          doy = doe - (365 * yoe + yoe div 4 - yoe div 100);
          mp = (5 * doy + 2) div 153;
          d = doy - (153 * mp + 2) div 5 + 1;
          m = (if mp < 10 then mp + 3 else mp - 9)
      in (if m \<le> 2 then y + 1 else y, m, d))"

definition days_from_civil :: "int \<Rightarrow> int \<Rightarrow> int \<Rightarrow> int" where
  "days_from_civil y m d =
     (let y' = (if m \<le> 2 then y - 1 else y);
          era = y' div 400;
          yoe = y' - era * 400;
          doy = (153 * (if m > 2 then m - 3 else m + 9) + 2) div 5 + d - 1;
          doe = yoe * 365 + yoe div 4 - yoe div 100 + doy
      in era * 146097 + doe - 719468)"

definition days_in_month :: "int \<Rightarrow> int \<Rightarrow> int" where
  "days_in_month y m =
     (if m = 2 then (if y mod 4 = 0 \<and> (y mod 100 \<noteq> 0 \<or> y mod 400 = 0) then 29 else 28)
      else if m = 4 \<or> m = 6 \<or> m = 9 \<or> m = 11 then 30 else 31)"

text \<open>\<^verbatim>\<open>appendInt\<close> of the \<^verbatim>\<open>time\<close> package: sign, then zero padding to the width.\<close>

definition appendInt :: "int \<Rightarrow> nat \<Rightarrow> string" where
  "appendInt x width =
     (let ds = dec (nat \<bar>x\<bar>)
      in (if x < 0 then ''-'' else []) @ replicate (width - length ds) (CHR ''0'') @ ds)"

definition pad2 :: "int \<Rightarrow> string" where
  "pad2 n = [digit_char (nat n div 10), digit_char (nat n)]"

text \<open>
  \<^verbatim>\<open>t.Format(time.RFC3339)\<close> (layout \<^verbatim>\<open>2006-01-02T15:04:05Z07:00\<close>) in a zone
  \<open>offset\<close> seconds east of UTC.
\<close>

definition zone_RFC3339 :: "int \<Rightarrow> string" where
  "zone_RFC3339 offset =
     (if offset = 0 then ''Z''
      else (let z = \<bar>offset\<bar> div 60
            in (if offset < 0 then ''-'' else ''+'') @ pad2 (z div 60) @ '':'' @ pad2 (z mod 60)))"

definition Format_RFC3339 :: "int \<Rightarrow> Time \<Rightarrow> string" where
  "Format_RFC3339 offset t =
     (let secs = t div 1000000000 + offset;
          days = secs div 86400;
          sod = secs mod 86400;
          ymd = civil_from_days days
      in appendInt (fst ymd) 4 @ ''-'' @ pad2 (fst (snd ymd)) @ ''-'' @ pad2 (snd (snd ymd))
         @ ''T'' @ pad2 (sod div 3600) @ '':'' @ pad2 (sod div 60 mod 60) @ '':''
         @ pad2 (sod mod 60) @ zone_RFC3339 offset)"

text \<open>
  \<^verbatim>\<open>time.Parse(time.RFC3339, s)\<close>, for the timestamps of RFC 3339: date, \<open>T\<close>, time of
  day, an optional fraction of a second, and \<open>Z\<close> or a numeric zone. (The library also
  tolerates a few spellings outside RFC 3339, such as a one-digit hour; the model rejects
  them, and every statement below that needs a parse to succeed assumes that it does.)
\<close>

definition num :: "string \<Rightarrow> int option" where
  "num s = (if s \<noteq> [] \<and> list_all is_digit s
            then Some (int (foldl (\<lambda>a c. a * 10 + digit_val c) 0 s)) else None)"

definition zone_offset :: "string \<Rightarrow> int option" where
  "zone_offset z =
     (if z = ''Z'' then Some 0
      else if length z = 6 \<and> (z ! 0 = CHR ''+'' \<or> z ! 0 = CHR ''-'') \<and> z ! 3 = CHR '':''
      then (case (num (take 2 (drop 1 z)), num (drop 4 z)) of
              (Some h, Some m) \<Rightarrow>
                if h < 24 \<and> m < 60
                then Some ((if z ! 0 = CHR ''-'' then - 1 else 1) * (h * 3600 + m * 60))
                else None
            | _ \<Rightarrow> None)
      else None)"

definition Parse_RFC3339 :: "string \<Rightarrow> Time option" where
  "Parse_RFC3339 s =
     (if length s < 20 \<or> s ! 4 \<noteq> CHR ''-'' \<or> s ! 7 \<noteq> CHR ''-'' \<or> s ! 10 \<noteq> CHR ''T''
         \<or> s ! 13 \<noteq> CHR '':'' \<or> s ! 16 \<noteq> CHR '':'' then None
      else case (num (take 4 s), num (take 2 (drop 5 s)), num (take 2 (drop 8 s)),
                 num (take 2 (drop 11 s)), num (take 2 (drop 14 s)), num (take 2 (drop 17 s))) of
        (Some y, Some mo, Some d, Some h, Some mi, Some sec) \<Rightarrow>
          (let r = drop 19 s;
               dot = (hd r = CHR ''.'');
               frac = (if dot then takeWhile is_digit (tl r) else []);
               z = (if dot then dropWhile is_digit (tl r) else r);
               ns = (if frac = [] then 0
                     else int (foldl (\<lambda>a c. a * 10 + digit_val c) 0
                                 (take 9 (frac @ replicate 9 (CHR ''0'')))))
           in if dot \<and> frac = [] then None
              else if mo < 1 \<or> 12 < mo \<or> d < 1 \<or> days_in_month y mo < d
                      \<or> 23 < h \<or> 59 < mi \<or> 59 < sec then None
              else case zone_offset z of
                None \<Rightarrow> None
              | Some off \<Rightarrow>
                  Some ((days_from_civil y mo d * 86400 + h * 3600 + mi * 60 + sec - off)
                          * 1000000000 + ns))
      | _ \<Rightarrow> None)"

subsection \<open>The IP range codec\<close>

text \<open>
  Modelled from the spec: \<^verbatim>\<open>IsIpv4\<close> and \<^verbatim>\<open>GetIpsFromIpRange\<close> are called by the
  filter compiler but defined in a file of the package that is not among the sources.
  The spec's codec converts an IP or CIDR string into an inclusive numeric pair
  (start, end), fails on unparsable input, and treats a bare IP as a single-host range
  (start = end, a /32).
\<close>

fun split_on :: "char \<Rightarrow> string \<Rightarrow> string list" where
  "split_on sep [] = [[]]"
| "split_on sep (c # s) =
     (if c = sep then [] # split_on sep s
      else (case split_on sep s of [] \<Rightarrow> [[c]] | w # ws \<Rightarrow> (c # w) # ws))"

definition parse_octet :: "string \<Rightarrow> int option" where
  "parse_octet s = (case num s of
                      Some n \<Rightarrow> if length s \<le> 3 \<and> n \<le> 255 then Some n else None
                    | None \<Rightarrow> None)"

definition parse_ipv4 :: "string \<Rightarrow> int option" where
  "parse_ipv4 s =
     (case map parse_octet (split_on (CHR ''.'') s) of
        [Some a, Some b, Some c, Some d] \<Rightarrow> Some (a * 16777216 + b * 65536 + c * 256 + d)
      | _ \<Rightarrow> None)"

definition IsIpv4 :: "string \<Rightarrow> bool" where
  "IsIpv4 host \<longleftrightarrow> parse_ipv4 host \<noteq> None"

definition GetIpsFromIpRange :: "string \<Rightarrow> (int \<times> int) option" where
  "GetIpsFromIpRange host =
     (case split_on (CHR ''/'') host of
        [ip] \<Rightarrow> (case parse_ipv4 ip of Some a \<Rightarrow> Some (a, a) | None \<Rightarrow> None)
      | [ip, bits] \<Rightarrow>
          (case (parse_ipv4 ip, num bits) of
             (Some a, Some n) \<Rightarrow>
               if length bits \<le> 2 \<and> n \<le> 32
               then (let size = 2 ^ (32 - nat n); start = a - a mod size
                     in Some (start, start + size - 1))
               else None
           | _ \<Rightarrow> None)
      | _ \<Rightarrow> None)"

subsection \<open>The entity store\<close>

text \<open>
  The store that the generated \<^verbatim>\<open>ent\<close> client talks to: one table per entity kind,
  each row with its identifier, its attributes and, for the three kinds of children, the
  foreign key of the owning alert (empty for a detached row). The sequences give the next
  identifier of each table. \<open>unavailable\<close> makes every statement sent to the store
  fail. \<open>fk_strict\<close> is the store's rule for attaching a child to a new parent: when
  set, a child that already has a parent cannot be attached (the attachment affects
  fewer rows than requested and the creation fails); when clear, the attachment
  overwrites the foreign key.
\<close>

record Machine =
  mach_ID :: nat
  mach_MachineId :: string

record DecisionFields =
  d_Until :: Time
  d_Scenario :: string
  d_Type :: string
  d_StartIP :: int
  d_EndIP :: int
  d_Value :: string
  d_Scope :: string
  d_Origin :: string
  d_Simulated :: bool

record Decision =
  d_ID :: nat
  d_fields :: DecisionFields
  d_owner :: "nat option"

record EventFields =
  e_Time :: Time
  e_Serialized :: string

record Event =
  e_ID :: nat
  e_fields :: EventFields
  e_owner :: "nat option"

record MetaFields =
  m_Key :: string
  m_Value :: string

record Meta =
  m_ID :: nat
  m_fields :: MetaFields
  m_owner :: "nat option"

record AlertFields =
  a_Scenario :: string
  a_Message :: string
  a_EventsCount :: int
  a_StartedAt :: Time
  a_StoppedAt :: Time
  a_SourceScope :: string
  a_SourceValue :: string
  a_SourceIp :: string
  a_SourceRange :: string
  a_SourceAsNumber :: string
  a_SourceAsName :: string
  a_SourceCountry :: string
  a_SourceLatitude :: real
  a_SourceLongitude :: real
  a_Capacity :: int
  a_LeakSpeed :: string
  a_Simulated :: bool
  a_ScenarioVersion :: string
  a_ScenarioHash :: string

record Alert =
  a_ID :: nat
  a_CreatedAt :: Time
  a_fields :: AlertFields
  a_owner :: "nat option"

text \<open>
  \<^verbatim>\<open>ent.AlertCreate\<close>: the attributes set on the builder, the children added to it
  (by identifier) and the owner set on it.
\<close>

record AlertCreate =
  ac_fields :: AlertFields
  ac_decisions :: "nat list"
  ac_events :: "nat list"
  ac_metas :: "nat list"
  ac_owner :: "nat option"

record Store =
  tbl_alerts :: "Alert list"
  tbl_decisions :: "Decision list"
  tbl_events :: "Event list"
  tbl_metas :: "Meta list"
  tbl_machines :: "Machine list"
  alert_seq :: nat
  decision_seq :: nat
  event_seq :: nat
  meta_seq :: nat
  unavailable :: bool
  fk_strict :: bool

text \<open>An alert as a query returns it, with its edges loaded.\<close>

record AlertView =
  v_alert :: Alert
  v_decisions :: "Decision list"
  v_events :: "Event list"
  v_metas :: "Meta list"
  v_owner :: "Machine option"

subsubsection \<open>Predicates\<close>

datatype decision_pred =
    TypeEQ string | OriginNEQ string | UntilGTE Time | StartIPGTE int | EndIPLTE int

datatype alert_pred =
    IDEQ nat | SimulatedEQ bool | SourceScopeEQ string | SourceValueEQ string
  | ScenarioEQ string | CreatedAtGTE Time | CreatedAtLTE Time
  | HasDecisions | HasDecisionsWith decision_pred
  | Not alert_pred | And alert_pred alert_pred

fun decision_holds :: "decision_pred \<Rightarrow> Decision \<Rightarrow> bool" where
  "decision_holds (TypeEQ v) d \<longleftrightarrow> d_Type (d_fields d) = v"
| "decision_holds (OriginNEQ v) d \<longleftrightarrow> d_Origin (d_fields d) \<noteq> v"
| "decision_holds (UntilGTE t) d \<longleftrightarrow> t \<le> d_Until (d_fields d)"
| "decision_holds (StartIPGTE n) d \<longleftrightarrow> n \<le> d_StartIP (d_fields d)"
| "decision_holds (EndIPLTE n) d \<longleftrightarrow> d_EndIP (d_fields d) \<le> n"

fun alert_holds :: "Store \<Rightarrow> alert_pred \<Rightarrow> Alert \<Rightarrow> bool" where
  "alert_holds s (IDEQ i) a \<longleftrightarrow> a_ID a = i"
| "alert_holds s (SimulatedEQ b) a \<longleftrightarrow> a_Simulated (a_fields a) = b"
| "alert_holds s (SourceScopeEQ v) a \<longleftrightarrow> a_SourceScope (a_fields a) = v"
| "alert_holds s (SourceValueEQ v) a \<longleftrightarrow> a_SourceValue (a_fields a) = v"
| "alert_holds s (ScenarioEQ v) a \<longleftrightarrow> a_Scenario (a_fields a) = v"
| "alert_holds s (CreatedAtGTE t) a \<longleftrightarrow> t \<le> a_CreatedAt a"
| "alert_holds s (CreatedAtLTE t) a \<longleftrightarrow> a_CreatedAt a \<le> t"
| "alert_holds s HasDecisions a \<longleftrightarrow> (\<exists>d \<in> set (tbl_decisions s). d_owner d = Some (a_ID a))"
| "alert_holds s (HasDecisionsWith p) a \<longleftrightarrow>
     (\<exists>d \<in> set (tbl_decisions s). d_owner d = Some (a_ID a) \<and> decision_holds p d)"
| "alert_holds s (Not p) a \<longleftrightarrow> \<not> alert_holds s p a"
| "alert_holds s (And p q) a \<longleftrightarrow> alert_holds s p a \<and> alert_holds s q a"

text \<open>
  \<^verbatim>\<open>event.HasOwnerWith(p)\<close> and its siblings: the row has an owning alert, and that
  alert satisfies \<open>p\<close>.
\<close>

definition owner_with :: "Store \<Rightarrow> alert_pred \<Rightarrow> nat option \<Rightarrow> bool" where
  "owner_with s p fk \<longleftrightarrow> (\<exists>a \<in> set (tbl_alerts s). fk = Some (a_ID a) \<and> alert_holds s p a)"

subsubsection \<open>Queries\<close>

text \<open>An \<^verbatim>\<open>ent.AlertQuery\<close> is the list of the predicates given to \<^verbatim>\<open>Where\<close>.\<close>

type_synonym AlertQuery = "alert_pred list"

definition Where :: "AlertQuery \<Rightarrow> alert_pred \<Rightarrow> AlertQuery" where
  "Where q p = q @ [p]"

definition load_edges :: "Store \<Rightarrow> Alert \<Rightarrow> AlertView" where
  "load_edges s a =
     \<lparr>v_alert = a,
      v_decisions = filter (\<lambda>d. d_owner d = Some (a_ID a)) (tbl_decisions s),
      v_events = filter (\<lambda>e. e_owner e = Some (a_ID a)) (tbl_events s),
      v_metas = filter (\<lambda>m. m_owner m = Some (a_ID a)) (tbl_metas s),
      v_owner = (case a_owner a of
                   None \<Rightarrow> None
                 | Some i \<Rightarrow> find (\<lambda>m. mach_ID m = i) (tbl_machines s))\<rparr>"

text \<open>
  \<^verbatim>\<open>q.WithDecisions().WithEvents().WithMetas().WithOwner().Order(ent.Asc(alert.FieldCreatedAt)).All(ctx)\<close>:
  the rows that satisfy every predicate, in ascending order of creation (rows created at
  the same instant keep the order of the table), with their edges.
\<close>

definition Alert_Query_All :: "Store \<Rightarrow> AlertQuery \<Rightarrow> db_error + AlertView list" where
  "Alert_Query_All s q =
     (if unavailable s then Inl Unavailable
      else Inr (map (load_edges s)
                  (sort_key a_CreatedAt
                     (filter (\<lambda>a. \<forall>p \<in> set q. alert_holds s p a) (tbl_alerts s)))))"

definition Alert_Query_Count :: "Store \<Rightarrow> db_error + int" where
  "Alert_Query_Count s =
     (if unavailable s then Inl Unavailable else Inr (int (length (tbl_alerts s))))"

subsubsection \<open>Creation\<close>

text \<open>
  \<^verbatim>\<open>CreateBulk(builders...).Save(ctx)\<close>. Without builders nothing is sent to the store.
  Children are created detached; the rows are returned with their new identifiers.
\<close>

definition Decision_CreateBulk :: "Store \<Rightarrow> DecisionFields list \<Rightarrow> Store \<times> (db_error + Decision list)" where
  "Decision_CreateBulk s bs =
     (if bs = [] then (s, Inr [])
      else if unavailable s then (s, Inl Unavailable)
      else (let rows = map2 (\<lambda>i b. \<lparr>d_ID = i, d_fields = b, d_owner = None\<rparr>)
                         [decision_seq s ..< decision_seq s + length bs] bs
            in (s\<lparr>tbl_decisions := tbl_decisions s @ rows,
                   decision_seq := decision_seq s + length bs\<rparr>, Inr rows)))"

definition Event_CreateBulk :: "Store \<Rightarrow> EventFields list \<Rightarrow> Store \<times> (db_error + Event list)" where
  "Event_CreateBulk s bs =
     (if bs = [] then (s, Inr [])
      else if unavailable s then (s, Inl Unavailable)
      else (let rows = map2 (\<lambda>i b. \<lparr>e_ID = i, e_fields = b, e_owner = None\<rparr>)
                         [event_seq s ..< event_seq s + length bs] bs
            in (s\<lparr>tbl_events := tbl_events s @ rows,
                   event_seq := event_seq s + length bs\<rparr>, Inr rows)))"

definition Meta_CreateBulk :: "Store \<Rightarrow> MetaFields list \<Rightarrow> Store \<times> (db_error + Meta list)" where
  "Meta_CreateBulk s bs =
     (if bs = [] then (s, Inr [])
      else if unavailable s then (s, Inl Unavailable)
      else (let rows = map2 (\<lambda>i b. \<lparr>m_ID = i, m_fields = b, m_owner = None\<rparr>)
                         [meta_seq s ..< meta_seq s + length bs] bs
            in (s\<lparr>tbl_metas := tbl_metas s @ rows,
                   meta_seq := meta_seq s + length bs\<rparr>, Inr rows)))"

text \<open>
  Attaching children to a new alert sets their foreign key. The statement addresses the
  rows with the given identifiers (under \<open>fk_strict\<close>: those of them without a parent);
  when it reaches fewer rows than identifiers were given, the creation fails.
\<close>

definition attachable :: "Store \<Rightarrow> nat list \<Rightarrow> nat \<Rightarrow> nat option \<Rightarrow> bool" where
  "attachable s ids i fk \<longleftrightarrow> i \<in> set ids \<and> (fk_strict s \<longrightarrow> fk = None)"

definition attach_edges :: "Store \<Rightarrow> nat \<Rightarrow> AlertCreate \<Rightarrow> Store option" where
  "attach_edges s aid b =
     (if length (filter (\<lambda>d. attachable s (ac_decisions b) (d_ID d) (d_owner d)) (tbl_decisions s))
           < length (ac_decisions b)
         \<or> length (filter (\<lambda>e. attachable s (ac_events b) (e_ID e) (e_owner e)) (tbl_events s))
           < length (ac_events b)
         \<or> length (filter (\<lambda>m. attachable s (ac_metas b) (m_ID m) (m_owner m)) (tbl_metas s))
           < length (ac_metas b)
      then None
      else Some (s\<lparr>
        tbl_decisions := map (\<lambda>d. if attachable s (ac_decisions b) (d_ID d) (d_owner d)
                               then d\<lparr>d_owner := Some aid\<rparr> else d) (tbl_decisions s),
        tbl_events := map (\<lambda>e. if attachable s (ac_events b) (e_ID e) (e_owner e)
                            then e\<lparr>e_owner := Some aid\<rparr> else e) (tbl_events s),
        tbl_metas := map (\<lambda>m. if attachable s (ac_metas b) (m_ID m) (m_owner m)
                           then m\<lparr>m_owner := Some aid\<rparr> else m) (tbl_metas s)\<rparr>))"

fun attach_all :: "Store \<Rightarrow> (nat \<times> AlertCreate) list \<Rightarrow> Store option" where
  "attach_all s [] = Some s"
| "attach_all s ((aid, b) # rest) =
     (case attach_edges s aid b of None \<Rightarrow> None | Some s' \<Rightarrow> attach_all s' rest)"

text \<open>
  The bulk creation of alerts: the rows are inserted with consecutive identifiers and the
  creation instant, then the edges of each builder are set, in the order of the
  builders. It is one transaction: when an attachment fails, nothing is kept.
\<close>

definition Alert_CreateBulk :: "Store \<Rightarrow> Time \<Rightarrow> AlertCreate list \<Rightarrow> Store \<times> (db_error + Alert list)" where
  "Alert_CreateBulk s now bs =
     (if bs = [] then (s, Inr [])
      else if unavailable s then (s, Inl Unavailable)
      else (let ids = [alert_seq s ..< alert_seq s + length bs];
                rows = map2 (\<lambda>i b. \<lparr>a_ID = i, a_CreatedAt = now, a_fields = ac_fields b,
                                      a_owner = ac_owner b\<rparr>) ids bs
            in case attach_all (s\<lparr>tbl_alerts := tbl_alerts s @ rows,
                                   alert_seq := alert_seq s + length bs\<rparr>) (zip ids bs) of
                 None \<Rightarrow> (s, Inl ConstraintError)
               | Some s' \<Rightarrow> (s', Inr rows)))"

subsubsection \<open>Deletion\<close>

text \<open>
  \<^verbatim>\<open>Delete().Where(HasOwnerWith(p)).Exec(ctx)\<close> for the three kinds of children (the
  number of deleted rows is returned), and \<^verbatim>\<open>Alert.DeleteOne(a).Exec(ctx)\<close>, which
  reports an error when no row has the identifier.
\<close>

definition Event_Delete :: "Store \<Rightarrow> alert_pred \<Rightarrow> Store \<times> (db_error + nat)" where
  "Event_Delete s p =
     (if unavailable s then (s, Inl Unavailable)
      else (s\<lparr>tbl_events := filter (\<lambda>e. \<not> owner_with s p (e_owner e)) (tbl_events s)\<rparr>,
            Inr (length (filter (\<lambda>e. owner_with s p (e_owner e)) (tbl_events s)))))"

definition Meta_Delete :: "Store \<Rightarrow> alert_pred \<Rightarrow> Store \<times> (db_error + nat)" where
  "Meta_Delete s p =
     (if unavailable s then (s, Inl Unavailable)
      else (s\<lparr>tbl_metas := filter (\<lambda>m. \<not> owner_with s p (m_owner m)) (tbl_metas s)\<rparr>,
            Inr (length (filter (\<lambda>m. owner_with s p (m_owner m)) (tbl_metas s)))))"

definition Decision_Delete :: "Store \<Rightarrow> alert_pred \<Rightarrow> Store \<times> (db_error + nat)" where
  "Decision_Delete s p =
     (if unavailable s then (s, Inl Unavailable)
      else (s\<lparr>tbl_decisions := filter (\<lambda>d. \<not> owner_with s p (d_owner d)) (tbl_decisions s)\<rparr>,
            Inr (length (filter (\<lambda>d. owner_with s p (d_owner d)) (tbl_decisions s)))))"

definition Alert_DeleteOne :: "Store \<Rightarrow> nat \<Rightarrow> Store \<times> (db_error + unit)" where
  "Alert_DeleteOne s i =
     (if unavailable s then (s, Inl Unavailable)
      else if \<not> (\<exists>a \<in> set (tbl_alerts s). a_ID a = i) then (s, Inl NotFoundError)
      else (s\<lparr>tbl_alerts := filter (\<lambda>a. a_ID a \<noteq> i) (tbl_alerts s)\<rparr>, Inr ()))"

subsection \<open>The client\<close>

text \<open>
  The receiver of the methods: the store, and the behaviour of what the methods call
  outside this file. \<open>machine_lookup\<close> is \<^verbatim>\<open>QueryMachineByID\<close>, a method of the
  package that is not among the sources: it answers with a machine or with an error,
  \<open>UserNotExists\<close> when there is no such machine. \<open>marshal\<close> is \<^verbatim>\<open>json.Marshal\<close> on
  the metadata of an event. \<open>Local\<close> is the zone of the process, in seconds east of
  UTC, in which \<^verbatim>\<open>time.Now()\<close> is formatted. The clock reading \<open>now\<close> is an argument of
  every operation that reads the clock.
\<close>

record Client =
  Ent :: Store
  machine_lookup :: "string \<Rightarrow> error + Machine"
  marshal :: "(string \<times> string) list \<Rightarrow> string option"
  Local :: int

definition QueryMachineByID :: "Client \<Rightarrow> string \<Rightarrow> error + Machine" where
  "QueryMachineByID c machineId = machine_lookup c machineId"

subsection \<open>BuildAlertRequestFromFilter\<close>

text \<open>
  The filter is a Go map from keys to lists of values. It is given here as the list of
  its entries in the order in which \<^verbatim>\<open>range\<close> visits them (an order that Go leaves
  open), so a statement about every filter list is a statement about every map and every
  order of visit. \<open>index0 value k\<close> is the read of \<^verbatim>\<open>value[0]\<close>, which panics on an
  empty list, followed by \<open>k\<close>.
\<close>

type_synonym Filter = "(string \<times> string list) list"

definition index0 :: "string list \<Rightarrow> (string \<Rightarrow> 'a outcome) \<Rightarrow> 'a outcome" where
  "index0 value k = (case value of [] \<Rightarrow> Panics | v # _ \<Rightarrow> k v)"

text \<open>
  One round of the loop over the filter: the \<^verbatim>\<open>switch\<close> on the key, on the query built
  so far and the two bounds \<^verbatim>\<open>startIP\<close> and \<^verbatim>\<open>endIP\<close>.
\<close>

definition filter_case ::
  "Time \<Rightarrow> AlertQuery \<times> int \<times> int \<Rightarrow> string \<times> string list
     \<Rightarrow> (error + AlertQuery \<times> int \<times> int) outcome" where
  "filter_case now st pv =
     (let alerts = fst st; startIP = fst (snd st); endIP = snd (snd st);
          param = fst pv; value = snd pv
      in if param = ''scope'' then
           index0 value (\<lambda>v. Returns (Inr (Where alerts (SourceScopeEQ v), startIP, endIP)))
         else if param = ''value'' then
           index0 value (\<lambda>v. Returns (Inr (Where alerts (SourceValueEQ v), startIP, endIP)))
         else if param = ''scenario'' then
           index0 value (\<lambda>v. Returns (Inr (Where alerts (ScenarioEQ v), startIP, endIP)))
         else if param = ''ip'' then
           index0 value (\<lambda>v.
             if \<not> IsIpv4 v then Returns (Inl InvalidIPOrRange)
             else case GetIpsFromIpRange (v @ ''/32'') of
               None \<Rightarrow> Returns (Inl InvalidIPOrRange)
             | Some (s, e) \<Rightarrow> Returns (Inr (alerts, s, e)))
         else if param = ''range'' then
           index0 value (\<lambda>v.
             case GetIpsFromIpRange v of
               None \<Rightarrow> Returns (Inl InvalidIPOrRange)
             | Some (s, e) \<Rightarrow> Returns (Inr (alerts, s, e)))
         else if param = ''since'' then
           index0 value (\<lambda>v.
             case ParseDuration v of
               None \<Rightarrow> Returns (Inl DurationSyntax)
             | Some duration \<Rightarrow>
                 (let since = Add now (neg64 duration)
                  in if IsZero since then Returns (Inl EmptyTime)
                     else Returns (Inr (Where alerts (CreatedAtGTE since), startIP, endIP))))
         else if param = ''until'' then
           index0 value (\<lambda>v.
             case ParseDuration v of
               None \<Rightarrow> Returns (Inl DurationSyntax)
             | Some duration \<Rightarrow>
                 (let since = Add now (neg64 duration)
                  in if IsZero since then Returns (Inl EmptyTime)
                     else Returns (Inr (Where alerts (CreatedAtLTE since), startIP, endIP))))
         else if param = ''decision_type'' then
           index0 value (\<lambda>v.
             Returns (Inr (Where alerts (HasDecisionsWith (TypeEQ v)), startIP, endIP)))
         else if param = ''include_capi'' then
           index0 value (\<lambda>v.
             if v = ''false''
             then Returns (Inr (Where alerts (HasDecisionsWith (OriginNEQ ''CAPI'')), startIP, endIP))
             else Returns (Inr (alerts, startIP, endIP)))
         else if param = ''has_active_decision'' then
           index0 value (\<lambda>v.
             case ParseBool v of
               None \<Rightarrow> Returns (Inl ParseType)
             | Some hasActiveDecision \<Rightarrow>
                 if hasActiveDecision
                 then Returns (Inr (Where alerts (HasDecisionsWith (UntilGTE now)), startIP, endIP))
                 else Returns (Inr (Where alerts (Not HasDecisions), startIP, endIP)))
         else index0 value (\<lambda>v. Returns (Inl InvalidFilter)))"

fun filter_loop ::
  "Time \<Rightarrow> AlertQuery \<times> int \<times> int \<Rightarrow> Filter \<Rightarrow> (error + AlertQuery \<times> int \<times> int) outcome" where
  "filter_loop now st [] = Returns (Inr st)"
| "filter_loop now st (pv # rest) =
     (case filter_case now st pv of
        Panics \<Rightarrow> Panics
      | Returns (Inl err) \<Rightarrow> Returns (Inl err)
      | Returns (Inr st') \<Rightarrow> filter_loop now st' rest)"

text \<open>The last step of the compiler, on the query and the two bounds that the loop left.\<close>

definition restrict_bounds :: "AlertQuery \<times> int \<times> int \<Rightarrow> AlertQuery" where
  "restrict_bounds st =
     (let alerts = fst st; startIP = fst (snd st); endIP = snd (snd st)
      in if startIP \<noteq> 0 \<and> endIP \<noteq> 0
         then Where alerts (And (HasDecisionsWith (StartIPGTE startIP))
                                (HasDecisionsWith (EndIPLTE endIP)))
         else alerts)"

text \<open>
  The key \<^verbatim>\<open>simulated\<close> is handled first and removed from the map; then the loop; then
  the restriction to the bounds that \<^verbatim>\<open>ip\<close> or \<^verbatim>\<open>range\<close> left. A value of
  \<^verbatim>\<open>include_capi\<close> that is neither \<^verbatim>\<open>true\<close> nor \<^verbatim>\<open>false\<close> is only logged.
\<close>

definition BuildAlertRequestFromFilter ::
  "Time \<Rightarrow> AlertQuery \<Rightarrow> Filter \<Rightarrow> (error + AlertQuery) outcome" where
  "BuildAlertRequestFromFilter now alerts0 filter0 =
     (case (case map_of filter0 ''simulated'' of
              None \<Rightarrow> Returns (alerts0, filter0)
            | Some v \<Rightarrow>
                index0 v (\<lambda>v0.
                  Returns (if v0 = ''false'' then Where alerts0 (SimulatedEQ False) else alerts0,
                           filter (\<lambda>pv. fst pv \<noteq> ''simulated'') filter0))) of
        Panics \<Rightarrow> Panics
      | Returns (alerts1, filter1) \<Rightarrow>
          (case filter_loop now (alerts1, 0, 0) filter1 of
             Panics \<Rightarrow> Panics
           | Returns (Inl err) \<Rightarrow> Returns (Inl err)
           | Returns (Inr st) \<Rightarrow> Returns (Inr (restrict_bounds st))))"

subsection \<open>QueryAlertWithFilter, DeleteAlertGraph, DeleteAlertWithFilter\<close>

text \<open>A Go result \<^verbatim>\<open>(list, error)\<close> is a pair of the list and the error, if any.\<close>

definition QueryAlertWithFilter ::
  "Client \<Rightarrow> Time \<Rightarrow> Filter \<Rightarrow> (AlertView list \<times> error option) outcome" where
  "QueryAlertWithFilter c now filter0 =
     (case BuildAlertRequestFromFilter now [] filter0 of
        Panics \<Rightarrow> Panics
      | Returns (Inl err) \<Rightarrow> Returns ([], Some err)
      | Returns (Inr alerts) \<Rightarrow>
          (case Alert_Query_All (Ent c) alerts of
             Inl err \<Rightarrow> Returns ([], Some QueryFail)
           | Inr result \<Rightarrow> Returns (result, None)))"

definition DeleteAlertGraph :: "Client \<Rightarrow> AlertView \<Rightarrow> Client \<times> error option" where
  "DeleteAlertGraph c alertItem =
     (case Event_Delete (Ent c) (IDEQ (a_ID (v_alert alertItem))) of
        (s1, Inl err) \<Rightarrow> (c\<lparr>Ent := s1\<rparr>, Some DeleteFail)
      | (s1, Inr n1) \<Rightarrow>
     (case Meta_Delete s1 (IDEQ (a_ID (v_alert alertItem))) of
        (s2, Inl err) \<Rightarrow> (c\<lparr>Ent := s2\<rparr>, Some DeleteFail)
      | (s2, Inr n2) \<Rightarrow>
     (case Decision_Delete s2 (IDEQ (a_ID (v_alert alertItem))) of
        (s3, Inl err) \<Rightarrow> (c\<lparr>Ent := s3\<rparr>, Some DeleteFail)
      | (s3, Inr n3) \<Rightarrow>
     (case Alert_DeleteOne s3 (a_ID (v_alert alertItem)) of
        (s4, Inl err) \<Rightarrow> (c\<lparr>Ent := s4\<rparr>, Some DeleteFail)
      | (s4, Inr u) \<Rightarrow> (c\<lparr>Ent := s4\<rparr>, None)))))"

text \<open>The loop of \<^verbatim>\<open>DeleteAlertWithFilter\<close>, which stops at the first failure.\<close>

fun delete_each :: "Client \<Rightarrow> AlertView list \<Rightarrow> Client \<times> error option" where
  "delete_each c [] = (c, None)"
| "delete_each c (alertItem # rest) =
     (case DeleteAlertGraph c alertItem of
        (c', Some err) \<Rightarrow> (c', Some DeleteFail)
      | (c', None) \<Rightarrow> delete_each c' rest)"

text \<open>
  The error that \<^verbatim>\<open>QueryAlertWithFilter\<close> returns is assigned to \<^verbatim>\<open>err\<close> and not
  read: the loop runs over the list that came with it.
\<close>

definition DeleteAlertWithFilter ::
  "Client \<Rightarrow> Time \<Rightarrow> Filter \<Rightarrow> (Client \<times> AlertView list \<times> error option) outcome" where
  "DeleteAlertWithFilter c now filter0 =
     (case QueryAlertWithFilter c now filter0 of
        Panics \<Rightarrow> Panics
      | Returns (alertsToDelete, err) \<Rightarrow>
          (case delete_each c alertsToDelete of
             (c', Some err') \<Rightarrow> Returns (c', [], Some err')
           | (c', None) \<Rightarrow> Returns (c', alertsToDelete, None)))"

subsection \<open>FlushAlerts\<close>

text \<open>
  The loop of the second pass: of the alerts in ascending order of creation, those at a
  position below \<^verbatim>\<open>nbToDelete\<close> are deleted.
\<close>

fun flush_oldest :: "Client \<Rightarrow> int \<Rightarrow> nat \<Rightarrow> AlertView list \<Rightarrow> Client \<times> error option" where
  "flush_oldest c nbToDelete itemNb [] = (c, None)"
| "flush_oldest c nbToDelete itemNb (alert # rest) =
     (if int itemNb < nbToDelete
      then (case DeleteAlertGraph c alert of
              (c', Some err) \<Rightarrow> (c', Some err)
            | (c', None) \<Rightarrow> flush_oldest c' nbToDelete (Suc itemNb) rest)
      else flush_oldest c nbToDelete (Suc itemNb) rest)"

text \<open>
  The result is the client, the error, and the total that the last line logs
  (\<^verbatim>\<open>"%d alerts automatically flushed"\<close>) when that line is reached. The first pass is
  \<open>flush_age\<close>, the second \<open>flush_count\<close>; both add to \<^verbatim>\<open>totalDeleted\<close>.
\<close>

definition flush_age ::
  "Client \<Rightarrow> Time \<Rightarrow> Duration \<Rightarrow> (Client \<times> error option \<times> int) outcome" where
  "flush_age c now MaxAge =
     (let until = Add now (neg64 MaxAge)
      in if MaxAge > 0
         then (case DeleteAlertWithFilter c now [(''until'', [Format_RFC3339 (Local c) until])] of
                 Panics \<Rightarrow> Panics
               | Returns (c', deleted, Some err) \<Rightarrow> Returns (c', Some err, 0)
               | Returns (c', deleted, None) \<Rightarrow> Returns (c', None, int (length deleted)))
         else Returns (c, None, 0))"

definition flush_count ::
  "Client \<Rightarrow> int \<Rightarrow> int \<Rightarrow> Client \<times> error option \<times> int" where
  "flush_count c MaxItems totalDeleted =
     (if MaxItems > 0
      then (case Alert_Query_Count (Ent c) of
              Inl err \<Rightarrow> (c, Some (StoreError err), totalDeleted)
            | Inr totalAlerts \<Rightarrow>
                if totalAlerts > MaxItems
                then (let nbToDelete = totalAlerts - MaxItems
                      in case Alert_Query_All (Ent c) [] of
                           Inl err \<Rightarrow> (c, Some (StoreError err), totalDeleted)
                         | Inr alerts \<Rightarrow>
                             (case flush_oldest c nbToDelete 0 alerts of
                                (c', Some err) \<Rightarrow> (c', Some err, totalDeleted)
                              | (c', None) \<Rightarrow> (c', None, totalDeleted + nbToDelete)))
                else (c, None, totalDeleted))
      else (c, None, totalDeleted))"

definition FlushAlerts ::
  "Client \<Rightarrow> Time \<Rightarrow> Duration \<Rightarrow> int \<Rightarrow> (Client \<times> error option \<times> int option) outcome" where
  "FlushAlerts c now MaxAge MaxItems =
     (case flush_age c now MaxAge of
        Panics \<Rightarrow> Panics
      | Returns (c1, Some err, totalDeleted) \<Rightarrow> Returns (c1, Some err, None)
      | Returns (c1, None, totalDeleted) \<Rightarrow>
          (case flush_count c1 MaxItems totalDeleted of
             (c2, Some err, totalDeleted') \<Rightarrow> Returns (c2, Some err, None)
           | (c2, None, totalDeleted') \<Rightarrow> Returns (c2, None, Some totalDeleted')))"

subsection \<open>CreateAlertBulk\<close>

text \<open>
  The submitted alerts (\<^verbatim>\<open>models.Alert\<close> and its parts). The source dereferences the
  pointer-typed fields of a submission without a test; a submission of the model has all
  of them.
\<close>

record ModelsEvent =
  E_Timestamp :: string
  E_Meta :: "(string \<times> string) list"

record ModelsMeta =
  M_Key :: string
  M_Value :: string

record ModelsDecision =
  D_Duration :: string
  D_Scenario :: string
  D_Type :: string
  D_StartIP :: int
  D_EndIP :: int
  D_Value :: string
  D_Scope :: string
  D_Origin :: string

record ModelsSource =
  S_Scope :: string
  S_Value :: string
  S_IP :: string
  S_Range :: string
  S_AsNumber :: string
  S_AsName :: string
  S_Cn :: string
  S_Latitude :: real
  S_Longitude :: real

record ModelsAlert =
  A_Scenario :: string
  A_Message :: string
  A_EventsCount :: int
  A_StartAt :: string
  A_StopAt :: string
  A_Source :: ModelsSource
  A_Capacity :: int
  A_Leakspeed :: string
  A_Simulated :: bool
  A_ScenarioVersion :: string
  A_ScenarioHash :: string
  A_Events :: "ModelsEvent list"
  A_Meta :: "ModelsMeta list"
  A_Decisions :: "ModelsDecision list"
  A_MachineID :: string

definition bulkSize :: nat where
  "bulkSize = 20"

text \<open>
  The variables that live across the rounds of the loop: the three lists of children
  declared before the loop, the identifiers collected so far and the batch of builders.
\<close>

record vars =
  var_decisions :: "Decision list"
  var_metas :: "Meta list"
  var_events :: "Event list"
  var_ret :: "string list"
  var_bulk :: "AlertCreate list"

text \<open>The three inner loops, which fill the builders of the children.\<close>

fun build_events :: "Client \<Rightarrow> ModelsEvent list \<Rightarrow> error + EventFields list" where
  "build_events c [] = Inr []"
| "build_events c (eventItem # rest) =
     (case Parse_RFC3339 (E_Timestamp eventItem) of
        None \<Rightarrow> Inl ParseTimeFail
      | Some ts \<Rightarrow>
          (case marshal c (E_Meta eventItem) of
             None \<Rightarrow> Inl MarshalFail
           | Some marshallMetas \<Rightarrow>
               (case build_events c rest of
                  Inl err \<Rightarrow> Inl err
                | Inr eventBulk \<Rightarrow>
                    Inr (\<lparr>e_Time = ts, e_Serialized = marshallMetas\<rparr> # eventBulk))))"

definition build_metas :: "ModelsMeta list \<Rightarrow> MetaFields list" where
  "build_metas items = map (\<lambda>metaItem. \<lparr>m_Key = M_Key metaItem, m_Value = M_Value metaItem\<rparr>) items"

fun build_decisions :: "Time \<Rightarrow> bool \<Rightarrow> ModelsDecision list \<Rightarrow> error + DecisionFields list" where
  "build_decisions now simulated [] = Inr []"
| "build_decisions now simulated (decisionItem # rest) =
     (case ParseDuration (D_Duration decisionItem) of
        None \<Rightarrow> Inl ParseDurationFail
      | Some duration \<Rightarrow>
          (case build_decisions now simulated rest of
             Inl err \<Rightarrow> Inl err
           | Inr decisionBulk \<Rightarrow>
               Inr (\<lparr>d_Until = Add now duration,
                     d_Scenario = D_Scenario decisionItem,
                     d_Type = D_Type decisionItem,
                     d_StartIP = D_StartIP decisionItem,
                     d_EndIP = D_EndIP decisionItem,
                     d_Value = D_Value decisionItem,
                     d_Scope = D_Scope decisionItem,
                     d_Origin = D_Origin decisionItem,
                     d_Simulated = simulated\<rparr> # decisionBulk)))"

text \<open>
  The three blocks that persist the children of one submission. Each runs only when the
  submission has children of the kind; otherwise the variable keeps the value that an
  earlier round left in it.
\<close>

definition create_events :: "Client \<Rightarrow> ModelsAlert \<Rightarrow> Event list \<Rightarrow> Client \<times> (error + Event list)" where
  "create_events c alertItem events =
     (if length (A_Events alertItem) > 0
      then (case build_events c (A_Events alertItem) of
              Inl err \<Rightarrow> (c, Inl err)
            | Inr eventBulk \<Rightarrow>
                (case Event_CreateBulk (Ent c) eventBulk of
                   (s, Inl err) \<Rightarrow> (c\<lparr>Ent := s\<rparr>, Inl BulkError)
                 | (s, Inr rows) \<Rightarrow> (c\<lparr>Ent := s\<rparr>, Inr rows)))
      else (c, Inr events))"

definition create_metas :: "Client \<Rightarrow> ModelsAlert \<Rightarrow> Meta list \<Rightarrow> Client \<times> (error + Meta list)" where
  "create_metas c alertItem metas =
     (if length (A_Meta alertItem) > 0
      then (case Meta_CreateBulk (Ent c) (build_metas (A_Meta alertItem)) of
              (s, Inl err) \<Rightarrow> (c\<lparr>Ent := s\<rparr>, Inl BulkError)
            | (s, Inr rows) \<Rightarrow> (c\<lparr>Ent := s\<rparr>, Inr rows))
      else (c, Inr metas))"

definition create_decisions ::
  "Client \<Rightarrow> Time \<Rightarrow> ModelsAlert \<Rightarrow> Decision list \<Rightarrow> Client \<times> (error + Decision list)" where
  "create_decisions c now alertItem decisions =
     (if length (A_Decisions alertItem) > 0
      then (case build_decisions now (A_Simulated alertItem) (A_Decisions alertItem) of
              Inl err \<Rightarrow> (c, Inl err)
            | Inr decisionBulk \<Rightarrow>
                (case Decision_CreateBulk (Ent c) decisionBulk of
                   (s, Inl err) \<Rightarrow> (c\<lparr>Ent := s\<rparr>, Inl BulkError)
                 | (s, Inr rows) \<Rightarrow> (c\<lparr>Ent := s\<rparr>, Inr rows)))
      else (c, Inr decisions))"

text \<open>The attributes that the setters put on the builder of the alert.\<close>

definition alert_fields :: "ModelsAlert \<Rightarrow> Time \<Rightarrow> Time \<Rightarrow> AlertFields" where
  "alert_fields alertItem startAtTime stopAtTime =
     \<lparr>a_Scenario = A_Scenario alertItem,
      a_Message = A_Message alertItem,
      a_EventsCount = A_EventsCount alertItem,
      a_StartedAt = startAtTime,
      a_StoppedAt = stopAtTime,
      a_SourceScope = S_Scope (A_Source alertItem),
      a_SourceValue = S_Value (A_Source alertItem),
      a_SourceIp = S_IP (A_Source alertItem),
      a_SourceRange = S_Range (A_Source alertItem),
      a_SourceAsNumber = S_AsNumber (A_Source alertItem),
      a_SourceAsName = S_AsName (A_Source alertItem),
      a_SourceCountry = S_Cn (A_Source alertItem),
      a_SourceLatitude = S_Latitude (A_Source alertItem),
      a_SourceLongitude = S_Longitude (A_Source alertItem),
      a_Capacity = A_Capacity alertItem,
      a_LeakSpeed = A_Leakspeed alertItem,
      a_Simulated = A_Simulated alertItem,
      a_ScenarioVersion = A_ScenarioVersion alertItem,
      a_ScenarioHash = A_ScenarioHash alertItem\<rparr>"

text \<open>
  The machine lookup of a round: an error other than \<open>UserNotExists\<close> ends the call
  with \<open>QueryFail\<close>, \<open>UserNotExists\<close> leaves the alert without owner.
\<close>

definition resolve_owner :: "Client \<Rightarrow> string \<Rightarrow> error + Machine option" where
  "resolve_owner c machineId =
     (case QueryMachineByID c machineId of
        Inl err \<Rightarrow> if err \<noteq> UserNotExists then Inl QueryFail else Inr None
      | Inr owner \<Rightarrow> Inr (Some owner))"

text \<open>
  One round of the loop over the submissions. (The capacity that the source gives the
  new batch slice after a flush has no effect on any value and is left out.)
\<close>

definition alert_round ::
  "Client \<Rightarrow> Time \<Rightarrow> string \<Rightarrow> ModelsAlert \<Rightarrow> vars \<Rightarrow> Client \<times> (error + vars)" where
  "alert_round c now machineId alertItem vs =
     (case resolve_owner c machineId of
        Inl err \<Rightarrow> (c, Inl err)
      | Inr owner \<Rightarrow>
     (case Parse_RFC3339 (A_StartAt alertItem) of
        None \<Rightarrow> (c, Inl ParseTimeFail)
      | Some startAtTime \<Rightarrow>
     (case Parse_RFC3339 (A_StopAt alertItem) of
        None \<Rightarrow> (c, Inl ParseTimeFail)
      | Some stopAtTime \<Rightarrow>
     (case create_events c alertItem (var_events vs) of
        (c1, Inl err) \<Rightarrow> (c1, Inl err)
      | (c1, Inr events) \<Rightarrow>
     (case create_metas c1 alertItem (var_metas vs) of
        (c2, Inl err) \<Rightarrow> (c2, Inl err)
      | (c2, Inr metas) \<Rightarrow>
     (case create_decisions c2 now alertItem (var_decisions vs) of
        (c3, Inl err) \<Rightarrow> (c3, Inl err)
      | (c3, Inr decisions) \<Rightarrow>
          (let alertB = \<lparr>ac_fields = alert_fields alertItem startAtTime stopAtTime,
                         ac_decisions = map d_ID decisions,
                         ac_events = map e_ID events,
                         ac_metas = map m_ID metas,
                         ac_owner = map_option mach_ID owner\<rparr>;
               bulk = var_bulk vs @ [alertB]
           in if length bulk = bulkSize
              then (case Alert_CreateBulk (Ent c3) now bulk of
                      (s, Inl err) \<Rightarrow> (c3\<lparr>Ent := s\<rparr>, Inl BulkError)
                    | (s, Inr alerts) \<Rightarrow>
                        (c3\<lparr>Ent := s\<rparr>,
                         Inr \<lparr>var_decisions = decisions, var_metas = metas, var_events = events,
                              var_ret = var_ret vs @ map (\<lambda>alert. Itoa (int (a_ID alert))) alerts,
                              var_bulk = []\<rparr>))
              else (c3, Inr \<lparr>var_decisions = decisions, var_metas = metas, var_events = events,
                              var_ret = var_ret vs, var_bulk = bulk\<rparr>))))))))"

fun alert_loop ::
  "Client \<Rightarrow> Time \<Rightarrow> string \<Rightarrow> ModelsAlert list \<Rightarrow> vars \<Rightarrow> Client \<times> (error + vars)" where
  "alert_loop c now machineId [] vs = (c, Inr vs)"
| "alert_loop c now machineId (alertItem # rest) vs =
     (case alert_round c now machineId alertItem vs of
        (c', Inl err) \<Rightarrow> (c', Inl err)
      | (c', Inr vs') \<Rightarrow> alert_loop c' now machineId rest vs')"

text \<open>Every error return of the source carries the empty list of identifiers.\<close>

definition CreateAlertBulk ::
  "Client \<Rightarrow> Time \<Rightarrow> string \<Rightarrow> ModelsAlert list \<Rightarrow> Client \<times> string list \<times> error option" where
  "CreateAlertBulk c now machineId alertList =
     (case alert_loop c now machineId alertList
             \<lparr>var_decisions = [], var_metas = [], var_events = [], var_ret = [], var_bulk = []\<rparr> of
        (c1, Inl err) \<Rightarrow> (c1, [], Some err)
      | (c1, Inr vs) \<Rightarrow>
          (case Alert_CreateBulk (Ent c1) now (var_bulk vs) of
             (s, Inl err) \<Rightarrow> (c1\<lparr>Ent := s\<rparr>, [], Some BulkError)
           | (s, Inr alerts) \<Rightarrow>
               (c1\<lparr>Ent := s\<rparr>,
                var_ret vs @ map (\<lambda>alert. Itoa (int (a_ID alert))) alerts, None)))"

subsection \<open>The store after a cascading delete\<close>

text \<open>
  \<open>without D s\<close> is the store \<open>s\<close> without the alerts whose identifier is in \<open>D\<close>
  and without the events, metas and decisions that they own. It is used to state what the
  deleting operations leave.
\<close>

definition without :: "nat set \<Rightarrow> Store \<Rightarrow> Store" where
  "without D s =
     s\<lparr>tbl_events := filter (\<lambda>e. e_owner e \<notin> Some ` D) (tbl_events s),
       tbl_metas := filter (\<lambda>m. m_owner m \<notin> Some ` D) (tbl_metas s),
       tbl_decisions := filter (\<lambda>d. d_owner d \<notin> Some ` D) (tbl_decisions s),
       tbl_alerts := filter (\<lambda>a. a_ID a \<notin> D) (tbl_alerts s)\<rparr>"

subsection \<open>What an alert row records of a submission\<close>

text \<open>
  \<open>owner_of c machineId\<close> is the owner that the lookup of the machine gives an alert:
  the machine found, or none. \<open>records c machineId item x\<close> says that the attributes
  and the owner \<open>item\<close> of a row (or of a builder) are those of the submission \<open>x\<close> from
  that machine: the two instants parse, and every attribute is the submitted one.
\<close>

definition owner_of :: "Client \<Rightarrow> string \<Rightarrow> nat option" where
  "owner_of c machineId =
     (case machine_lookup c machineId of Inl err \<Rightarrow> None | Inr m \<Rightarrow> Some (mach_ID m))"

definition records :: "Client \<Rightarrow> string \<Rightarrow> AlertFields \<times> nat option \<Rightarrow> ModelsAlert \<Rightarrow> bool" where
  "records c machineId item x \<longleftrightarrow>
     (\<exists>st sp. Parse_RFC3339 (A_StartAt x) = Some st \<and> Parse_RFC3339 (A_StopAt x) = Some sp
        \<and> fst item = alert_fields x st sp)
     \<and> snd item = owner_of c machineId"

subsection \<open>A store and a client to run the operations on\<close>

definition example_fields :: AlertFields where
  "example_fields =
     \<lparr>a_Scenario = ''ssh-bruteforce'', a_Message = ''brute force'', a_EventsCount = 6,
      a_StartedAt = 1700000000000000000, a_StoppedAt = 1700000000000000000,
      a_SourceScope = ''ip'', a_SourceValue = ''10.0.0.5'', a_SourceIp = ''10.0.0.5'',
      a_SourceRange = [], a_SourceAsNumber = [], a_SourceAsName = [], a_SourceCountry = [],
      a_SourceLatitude = 0, a_SourceLongitude = 0, a_Capacity = 5, a_LeakSpeed = ''10s'',
      a_Simulated = False, a_ScenarioVersion = [], a_ScenarioHash = []\<rparr>"

definition example_alert :: "nat \<Rightarrow> Time \<Rightarrow> Alert" where
  "example_alert i t = \<lparr>a_ID = i, a_CreatedAt = t, a_fields = example_fields, a_owner = None\<rparr>"

definition example_decision :: "nat \<Rightarrow> Time \<Rightarrow> nat option \<Rightarrow> Decision" where
  "example_decision i t fk =
     \<lparr>d_ID = i,
      d_fields = \<lparr>d_Until = t, d_Scenario = ''ssh-bruteforce'', d_Type = ''ban'',
                  d_StartIP = 167772165, d_EndIP = 167772165, d_Value = ''10.0.0.5'',
                  d_Scope = ''ip'', d_Origin = ''crowdsec'', d_Simulated = False\<rparr>,
      d_owner = fk\<rparr>"

text \<open>
  Three alerts, created in November 2023 in the order of the table; the first has a
  decision that lasts until 1 January 2024, 04:00 UTC, the third one that ended on
  31 December 2023, 23:00 UTC, the second has none.
\<close>

definition example_store :: Store where
  "example_store =
     \<lparr>tbl_alerts = [example_alert 1 1700000000000000000, example_alert 2 1700000100000000000,
                    example_alert 3 1700000200000000000],
      tbl_decisions = [example_decision 1 1704081600000000000 (Some 1),
                       example_decision 2 1704063600000000000 (Some 3)],
      tbl_events = [], tbl_metas = [], tbl_machines = [],
      alert_seq = 4, decision_seq = 3, event_seq = 1, meta_seq = 1,
      unavailable = False, fk_strict = False\<rparr>"

definition example_client :: Client where
  "example_client =
     \<lparr>Ent = example_store, machine_lookup = (\<lambda>machineId. Inl UserNotExists),
      marshal = (\<lambda>meta. Some ''[]''), Local = 0\<rparr>"

text \<open>1 January 2024, 00:00 UTC.\<close>

definition example_now :: Time where
  "example_now = 1704067200000000000"

text \<open>
  An empty store under either rule of attachment, and two submissions from one machine
  that is not registered: the first with one decision of four hours, the second with
  none. Neither has events or metas.
\<close>

definition empty_store :: "bool \<Rightarrow> Store" where
  "empty_store strict =
     \<lparr>tbl_alerts = [], tbl_decisions = [], tbl_events = [], tbl_metas = [], tbl_machines = [],
      alert_seq = 1, decision_seq = 1, event_seq = 1, meta_seq = 1,
      unavailable = False, fk_strict = strict\<rparr>"

definition empty_client :: "bool \<Rightarrow> Client" where
  "empty_client strict =
     \<lparr>Ent = empty_store strict, machine_lookup = (\<lambda>machineId. Inl UserNotExists),
      marshal = (\<lambda>meta. Some ''[]''), Local = 0\<rparr>"

definition example_source :: ModelsSource where
  "example_source =
     \<lparr>S_Scope = ''ip'', S_Value = ''10.0.0.5'', S_IP = ''10.0.0.5'', S_Range = [],
      S_AsNumber = [], S_AsName = [], S_Cn = [], S_Latitude = 0, S_Longitude = 0\<rparr>"

definition example_ban :: ModelsDecision where
  "example_ban =
     \<lparr>D_Duration = ''4h'', D_Scenario = ''ssh-bruteforce'', D_Type = ''ban'',
      D_StartIP = 167772165, D_EndIP = 167772165, D_Value = ''10.0.0.5'', D_Scope = ''ip'',
      D_Origin = ''crowdsec''\<rparr>"

definition example_submission :: "ModelsDecision list \<Rightarrow> ModelsAlert" where
  "example_submission ds =
     \<lparr>A_Scenario = ''ssh-bruteforce'', A_Message = ''brute force'', A_EventsCount = 6,
      A_StartAt = ''2024-01-01T00:00:00Z'', A_StopAt = ''2024-01-01T00:05:00Z'',
      A_Source = example_source, A_Capacity = 5, A_Leakspeed = ''10s'', A_Simulated = False,
      A_ScenarioVersion = [], A_ScenarioHash = [], A_Events = [], A_Meta = [],
      A_Decisions = ds, A_MachineID = ''machine1''\<rparr>"

section \<open>Properties\<close>

subsection \<open>The filter compiler\<close>

lemma filter_loop_append:
  "filter_loop now st (xs @ ys) =
     (case filter_loop now st xs of
        Panics \<Rightarrow> Panics
      | Returns (Inl err) \<Rightarrow> Returns (Inl err)
      | Returns (Inr st') \<Rightarrow> filter_loop now st' ys)"
  by (induction xs arbitrary: st) (auto split: outcome.splits sum.splits)

lemma Build_empty: "BuildAlertRequestFromFilter now q [] = Returns (Inr q)"
  by (simp add: BuildAlertRequestFromFilter_def restrict_bounds_def)

text \<open>
  Two filters compile alike when they agree on the key \<^verbatim>\<open>simulated\<close> and the loop,
  followed by the last step, treats them alike.
\<close>

lemma Build_cong:
  assumes "map_of f ''simulated'' = map_of g ''simulated''"
    and "\<And>q'. (case filter_loop now (q', 0, 0) f of
                  Panics \<Rightarrow> Panics
                | Returns (Inl err) \<Rightarrow> Returns (Inl err)
                | Returns (Inr st) \<Rightarrow> Returns (Inr (restrict_bounds st)))
             = (case filter_loop now (q', 0, 0) g of
                  Panics \<Rightarrow> Panics
                | Returns (Inl err) \<Rightarrow> Returns (Inl err)
                | Returns (Inr st) \<Rightarrow> Returns (Inr (restrict_bounds st)))"
    and "\<And>q'. (case filter_loop now (q', 0, 0) (filter (\<lambda>pv. fst pv \<noteq> ''simulated'') f) of
                  Panics \<Rightarrow> Panics
                | Returns (Inl err) \<Rightarrow> Returns (Inl err)
                | Returns (Inr st) \<Rightarrow> Returns (Inr (restrict_bounds st)))
             = (case filter_loop now (q', 0, 0) (filter (\<lambda>pv. fst pv \<noteq> ''simulated'') g) of
                  Panics \<Rightarrow> Panics
                | Returns (Inl err) \<Rightarrow> Returns (Inl err)
                | Returns (Inr st) \<Rightarrow> Returns (Inr (restrict_bounds st)))"
  shows "BuildAlertRequestFromFilter now q f = BuildAlertRequestFromFilter now q g"
  unfolding BuildAlertRequestFromFilter_def assms(1)
  by (cases "map_of g ''simulated''") (simp_all add: assms(2,3) index0_def split: list.splits)

lemma Query_cong:
  "BuildAlertRequestFromFilter now [] f = BuildAlertRequestFromFilter now [] g \<Longrightarrow>
   QueryAlertWithFilter c now f = QueryAlertWithFilter c now g"
  by (simp add: QueryAlertWithFilter_def)

lemma filter_case_empty: "filter_case now st (k, []) = Panics"
  by (simp add: filter_case_def index0_def Let_def)

lemma filter_case_no_panic: "snd pv \<noteq> [] \<Longrightarrow> filter_case now st pv \<noteq> Panics"
  by (cases "snd pv") (auto simp: filter_case_def index0_def Let_def split: option.splits)

lemma filter_loop_no_panic: "\<forall>pv \<in> set f. snd pv \<noteq> [] \<Longrightarrow> filter_loop now st f \<noteq> Panics"
proof (induction f arbitrary: st)
  case Nil
  then show ?case by simp
next
  case (Cons pv f)
  then show ?case using filter_case_no_panic[of pv now st]
    by (auto split: outcome.splits sum.splits)
qed

lemma filter_loop_empty_value:
  "(k, []) \<in> set f \<Longrightarrow> filter_loop now st f \<noteq> Returns (Inr st')"
proof (induction f arbitrary: st)
  case Nil
  then show ?case by simp
next
  case (Cons pv f)
  show ?case
  proof (cases "pv = (k, [])")
    case True
    then show ?thesis by (simp add: filter_case_empty)
  next
    case False
    then have "(k, []) \<in> set f" using Cons.prems by simp
    then show ?thesis using Cons.IH by (simp split: outcome.splits sum.splits)
  qed
qed

lemma Build_no_panic:
  assumes "\<forall>pv \<in> set f. snd pv \<noteq> []"
  shows "BuildAlertRequestFromFilter now q f \<noteq> Panics"
proof -
  have b: "\<forall>pv \<in> set (filter (\<lambda>pv. fst pv \<noteq> ''simulated'') f). snd pv \<noteq> []"
    using assms by auto
  show ?thesis
  proof (cases "map_of f ''simulated''")
    case None
    then show ?thesis using filter_loop_no_panic[OF assms, of now "(q, 0, 0)"]
      by (auto simp: BuildAlertRequestFromFilter_def split: outcome.splits sum.splits)
  next
    case (Some v)
    then have "(''simulated'', v) \<in> set f" by (rule map_of_SomeD)
    then have "v \<noteq> []" using assms by auto
    then obtain x xs where v: "v = x # xs" by (cases v) auto
    show ?thesis using Some v filter_loop_no_panic[OF b]
      by (auto simp: BuildAlertRequestFromFilter_def index0_def split: outcome.splits sum.splits)
  qed
qed

lemma Build_empty_value_first: "BuildAlertRequestFromFilter now q ((k, []) # rest) = Panics"
proof (cases "k = ''simulated''")
  case True
  then show ?thesis by (simp add: BuildAlertRequestFromFilter_def index0_def)
next
  case False
  then show ?thesis
    by (auto simp: BuildAlertRequestFromFilter_def index0_def filter_case_empty
             split: option.splits list.splits)
qed

lemma Build_empty_value:
  assumes "distinct (map fst f)" and "(k, []) \<in> set f"
  shows "BuildAlertRequestFromFilter now q f \<noteq> Returns (Inr q')"
proof (cases "map_of f ''simulated''")
  case None
  then show ?thesis using filter_loop_empty_value[OF assms(2)]
    by (auto simp: BuildAlertRequestFromFilter_def split: outcome.splits sum.splits)
next
  case (Some v)
  show ?thesis
  proof (cases v)
    case Nil
    then show ?thesis using Some by (simp add: BuildAlertRequestFromFilter_def index0_def)
  next
    case (Cons x xs)
    have "map_of f k = Some []" using assms by simp
    then have "k \<noteq> ''simulated''" using Some Cons by auto
    then have "(k, []) \<in> set (filter (\<lambda>pv. fst pv \<noteq> ''simulated'') f)" using assms(2) by simp
    from filter_loop_empty_value[OF this] show ?thesis using Some Cons
      by (auto simp: BuildAlertRequestFromFilter_def index0_def split: outcome.splits sum.splits)
  qed
qed

text \<open>
  C9. The compiler reads \<^verbatim>\<open>value[0]\<close> in every case of the switch, and for the key
  \<^verbatim>\<open>simulated\<close> before the loop, without a test on the length. So it returns (a query or
  an error) on every filter whose value lists are all non-empty; a key with an empty
  list that is visited first makes it panic, whatever the key and the rest of the
  filter; and a filter (a map, so its keys are distinct) with an empty list under some
  key is never compiled to a query, in whatever order the keys are visited.
\<close>

theorem empty_value_list_panics:
  "((\<forall>pv \<in> set f. snd pv \<noteq> []) \<longrightarrow> BuildAlertRequestFromFilter now q f \<noteq> Panics)
   \<and> BuildAlertRequestFromFilter now q ((k, []) # rest) = Panics
   \<and> (distinct (map fst g) \<and> (k', []) \<in> set g
        \<longrightarrow> BuildAlertRequestFromFilter now q g \<noteq> Returns (Inr q'))"
  using Build_no_panic[of f now q] Build_empty_value_first[of now q k rest]
    Build_empty_value[of g k' now q q']
  by blast

theorem empty_value_list_panics_witness:
  "snd (''scope'', [''ip'']) \<noteq> []
   \<and> BuildAlertRequestFromFilter example_now [] [(''scope'', [''ip''])]
       = Returns (Inr [SourceScopeEQ ''ip''])
   \<and> BuildAlertRequestFromFilter example_now [] [(''scope'', [])] = Panics
   \<and> distinct (map fst [(''bogus'', [''x'']), (''scenario'', [])])
   \<and> (''scenario'', []) \<in> set [(''bogus'', [''x'']), (''scenario'', [])]
   \<and> BuildAlertRequestFromFilter example_now [] [(''bogus'', [''x'']), (''scenario'', [])]
       = Returns (Inl InvalidFilter)"
  using empty_value_list_panics[of "[(''scope'', [''ip''])]" example_now "[]" "''scope''" "[]"
      "[(''bogus'', [''x'']), (''scenario'', [])]" "''scenario''" "[]"]
  by (simp add: BuildAlertRequestFromFilter_def filter_case_def index0_def Let_def
      restrict_bounds_def Where_def)

lemma filter_case_ip_range:
  "IsIpv4 X \<Longrightarrow>
   filter_case now st (''ip'', X # vs) = filter_case now st (''range'', (X @ ''/32'') # ws)"
  by (simp add: filter_case_def index0_def Let_def)

lemma filter_loop_ip_range:
  assumes "IsIpv4 X"
  shows "filter_loop now st (pre @ (''ip'', X # vs) # post)
       = filter_loop now st (pre @ (''range'', (X @ ''/32'') # ws) # post)"
  by (auto simp: filter_loop_append filter_case_ip_range[OF assms, of now _ vs ws]
           split: outcome.splits sum.splits)

lemma Build_ip_range:
  assumes "IsIpv4 X"
  shows "BuildAlertRequestFromFilter now q (pre @ (''ip'', X # vs) # post)
       = BuildAlertRequestFromFilter now q (pre @ (''range'', (X @ ''/32'') # ws) # post)"
proof (rule Build_cong)
  show "map_of (pre @ (''ip'', X # vs) # post) ''simulated''
      = map_of (pre @ (''range'', (X @ ''/32'') # ws) # post) ''simulated''"
    by (simp add: map_add_def split: option.splits)
qed (simp_all add: filter_loop_ip_range[OF assms, of now _ _ vs _ ws])

text \<open>
  C8. For every string \<open>X\<close> that the codec accepts as an IPv4 address, the filter
  \<^verbatim>\<open>ip=X\<close> and the filter \<^verbatim>\<open>range=X/32\<close> compile to the same query and return the same
  alerts from every store; and so do two filters that differ only in having the one or
  the other among further keys.
\<close>

theorem ip_filter_is_range_32:
  "IsIpv4 X \<Longrightarrow>
     BuildAlertRequestFromFilter now q [(''ip'', [X])]
       = BuildAlertRequestFromFilter now q [(''range'', [X @ ''/32''])]
   \<and> QueryAlertWithFilter c now [(''ip'', [X])]
       = QueryAlertWithFilter c now [(''range'', [X @ ''/32''])]
   \<and> QueryAlertWithFilter c now (pre @ (''ip'', [X]) # post)
       = QueryAlertWithFilter c now (pre @ (''range'', [X @ ''/32'']) # post)"
  using Build_ip_range[of X now q "[]" "[]" "[]" "[]"]
    Query_cong[OF Build_ip_range[of X now "[]" "[]" "[]" "[]" "[]"], of c]
    Query_cong[OF Build_ip_range[of X now "[]" pre "[]" post "[]"], of c]
  by simp

lemma parse_ipv4_example: "parse_ipv4 ''10.0.0.5'' = Some 167772165"
  by (simp add: parse_ipv4_def parse_octet_def num_def is_digit_def digit_val_def)

lemma GetIpsFromIpRange_example: "GetIpsFromIpRange ''10.0.0.5/32'' = Some (167772165, 167772165)"
  by (simp add: GetIpsFromIpRange_def parse_ipv4_example num_def is_digit_def digit_val_def)

theorem ip_filter_is_range_32_witness:
  "IsIpv4 ''10.0.0.5''
   \<and> QueryAlertWithFilter example_client example_now [(''ip'', [''10.0.0.5''])]
       = QueryAlertWithFilter example_client example_now [(''range'', [''10.0.0.5/32''])]
   \<and> QueryAlertWithFilter example_client example_now [(''range'', [''10.0.0.5/32''])]
       = Returns (map (load_edges example_store)
                    [example_alert 1 1700000000000000000, example_alert 3 1700000200000000000],
                  None)"
proof -
  have ip: "IsIpv4 ''10.0.0.5''" by (simp add: IsIpv4_def parse_ipv4_example)
  have b: "BuildAlertRequestFromFilter example_now [] [(''range'', [''10.0.0.5/32''])]
         = Returns (Inr [And (HasDecisionsWith (StartIPGTE 167772165))
                             (HasDecisionsWith (EndIPLTE 167772165))])"
    by (simp add: BuildAlertRequestFromFilter_def filter_case_def index0_def Let_def
        restrict_bounds_def Where_def GetIpsFromIpRange_example)
  have q: "QueryAlertWithFilter example_client example_now [(''range'', [''10.0.0.5/32''])]
       = Returns (map (load_edges example_store)
                    [example_alert 1 1700000000000000000, example_alert 3 1700000200000000000],
                  None)"
    by (simp add: QueryAlertWithFilter_def b Alert_Query_All_def example_client_def
        example_store_def example_alert_def example_decision_def)
  show ?thesis
    using ip q ip_filter_is_range_32[OF ip, of example_now "[]" example_client "[]" "[]"]
    by simp
qed

text \<open>
  The keys other than \<^verbatim>\<open>ip\<close> and \<^verbatim>\<open>range\<close> neither read nor change the two bounds.
\<close>

lemma filter_case_other:
  "fst pv \<noteq> ''ip'' \<Longrightarrow> fst pv \<noteq> ''range'' \<Longrightarrow>
   filter_case now (q, s, e) pv =
     (case filter_case now (q, 0, 0) pv of
        Panics \<Rightarrow> Panics
      | Returns (Inl err) \<Rightarrow> Returns (Inl err)
      | Returns (Inr st') \<Rightarrow> Returns (Inr (fst st', s, e)))"
  by (cases "snd pv") (simp_all add: filter_case_def index0_def Let_def split: option.splits)

lemma filter_loop_other:
  "\<forall>pv \<in> set f. fst pv \<noteq> ''ip'' \<and> fst pv \<noteq> ''range'' \<Longrightarrow>
   filter_loop now (q, s, e) f =
     (case filter_loop now (q, 0, 0) f of
        Panics \<Rightarrow> Panics
      | Returns (Inl err) \<Rightarrow> Returns (Inl err)
      | Returns (Inr st') \<Rightarrow> Returns (Inr (fst st', s, e)))"
proof (induction f arbitrary: q)
  case Nil
  then show ?case by simp
next
  case (Cons pv f)
  have pv: "fst pv \<noteq> ''ip''" "fst pv \<noteq> ''range''" using Cons.prems by auto
  have rest: "\<forall>pv \<in> set f. fst pv \<noteq> ''ip'' \<and> fst pv \<noteq> ''range''" using Cons.prems by auto
  note c = filter_case_other[OF pv, of now q]
  show ?case
  proof (cases "filter_case now (q, 0, 0) pv")
    case Panics
    then show ?thesis using c[of s e] by simp
  next
    case (Returns r)
    show ?thesis
    proof (cases r)
      case (Inl err)
      then show ?thesis using Returns c[of s e] by simp
    next
      case (Inr st')
      obtain q' a b where st': "st' = (q', a, b)" by (cases st') auto
      have "a = 0 \<and> b = 0" using c[of 0 0] Returns Inr st' by simp
      then show ?thesis using Returns Inr st' c[of s e] Cons.IH[OF rest, of q'] by simp
    qed
  qed
qed

lemma filter_loop_zero_start:
  assumes ent: "\<And>st. filter_case now st ent = Returns (Inr (fst st, 0, e))"
    and pre: "\<forall>pv \<in> set pre. fst pv \<noteq> ''ip'' \<and> fst pv \<noteq> ''range''"
    and post: "\<forall>pv \<in> set post. fst pv \<noteq> ''ip'' \<and> fst pv \<noteq> ''range''"
  shows "(case filter_loop now (q, 0, 0) (pre @ ent # post) of
            Panics \<Rightarrow> Panics
          | Returns (Inl err) \<Rightarrow> Returns (Inl err)
          | Returns (Inr st) \<Rightarrow> Returns (Inr (restrict_bounds st)))
       = (case filter_loop now (q, 0, 0) (pre @ post) of
            Panics \<Rightarrow> Panics
          | Returns (Inl err) \<Rightarrow> Returns (Inl err)
          | Returns (Inr st) \<Rightarrow> Returns (Inr (restrict_bounds st)))"
proof (cases "filter_loop now (q, 0, 0) pre")
  case Panics
  then show ?thesis by (simp add: filter_loop_append)
next
  case (Returns r)
  show ?thesis
  proof (cases r)
    case (Inl err)
    then show ?thesis using Returns by (simp add: filter_loop_append)
  next
    case (Inr st1)
    have st1: "st1 = (fst st1, 0, 0)"
      using filter_loop_other[OF pre, of now q 0 0] Returns Inr by simp
    have l: "filter_loop now (pre_q, 0, e) post =
             (case filter_loop now (pre_q, 0, 0) post of
                Panics \<Rightarrow> Panics
              | Returns (Inl err) \<Rightarrow> Returns (Inl err)
              | Returns (Inr st') \<Rightarrow> Returns (Inr (fst st', 0, e)))" for pre_q
      by (rule filter_loop_other[OF post])
    have z: "filter_loop now (pre_q, 0, 0) post = Returns (Inr st2) \<Longrightarrow> st2 = (fst st2, 0, 0)"
      for pre_q st2
      using filter_loop_other[OF post, of now pre_q 0 0] by simp
    have lhs: "filter_loop now (q, 0, 0) (pre @ ent # post) = filter_loop now (fst st1, 0, e) post"
      using Returns Inr by (simp add: filter_loop_append ent)
    have rhs: "filter_loop now (q, 0, 0) (pre @ post) = filter_loop now (fst st1, 0, 0) post"
      using Returns Inr st1 by (simp add: filter_loop_append)
    show ?thesis
    proof (cases "filter_loop now (fst st1, 0, 0) post")
      case Panics
      then show ?thesis using lhs rhs l[of "fst st1"] by simp
    next
      case R2: (Returns r2)
      show ?thesis
      proof (cases r2)
        case (Inl err)
        then show ?thesis using R2 lhs rhs l[of "fst st1"] by simp
      next
        case (Inr st2)
        have "st2 = (fst st2, 0, 0)" using z R2 Inr by simp
        then obtain q2 where "st2 = (q2, 0, 0)" by (rule that)
        then show ?thesis using R2 Inr lhs rhs l[of "fst st1"]
          by (simp add: restrict_bounds_def)
      qed
    qed
  qed
qed

lemma Build_zero_start:
  assumes ent: "\<And>st. filter_case now st ent = Returns (Inr (fst st, 0, e))"
    and key: "fst ent \<noteq> ''simulated''"
    and others: "\<forall>pv \<in> set (pre @ post). fst pv \<noteq> ''ip'' \<and> fst pv \<noteq> ''range''"
  shows "BuildAlertRequestFromFilter now q (pre @ ent # post)
       = BuildAlertRequestFromFilter now q (pre @ post)"
proof (rule Build_cong)
  show "map_of (pre @ ent # post) ''simulated'' = map_of (pre @ post) ''simulated''"
    using key by (cases ent) (simp add: map_add_def split: option.splits)
next
  fix q'
  show "(case filter_loop now (q', 0, 0) (pre @ ent # post) of
            Panics \<Rightarrow> Panics
          | Returns (Inl err) \<Rightarrow> Returns (Inl err)
          | Returns (Inr st) \<Rightarrow> Returns (Inr (restrict_bounds st)))
       = (case filter_loop now (q', 0, 0) (pre @ post) of
            Panics \<Rightarrow> Panics
          | Returns (Inl err) \<Rightarrow> Returns (Inl err)
          | Returns (Inr st) \<Rightarrow> Returns (Inr (restrict_bounds st)))"
    using others by (intro filter_loop_zero_start[OF ent]) auto
next
  fix q'
  have "(case filter_loop now (q', 0, 0)
               (filter (\<lambda>pv. fst pv \<noteq> ''simulated'') pre @ ent
                  # filter (\<lambda>pv. fst pv \<noteq> ''simulated'') post) of
            Panics \<Rightarrow> Panics
          | Returns (Inl err) \<Rightarrow> Returns (Inl err)
          | Returns (Inr st) \<Rightarrow> Returns (Inr (restrict_bounds st)))
       = (case filter_loop now (q', 0, 0)
               (filter (\<lambda>pv. fst pv \<noteq> ''simulated'') pre
                  @ filter (\<lambda>pv. fst pv \<noteq> ''simulated'') post) of
            Panics \<Rightarrow> Panics
          | Returns (Inl err) \<Rightarrow> Returns (Inl err)
          | Returns (Inr st) \<Rightarrow> Returns (Inr (restrict_bounds st)))"
    using others by (intro filter_loop_zero_start[OF ent]) auto
  then show "(case filter_loop now (q', 0, 0)
               (filter (\<lambda>pv. fst pv \<noteq> ''simulated'') (pre @ ent # post)) of
            Panics \<Rightarrow> Panics
          | Returns (Inl err) \<Rightarrow> Returns (Inl err)
          | Returns (Inr st) \<Rightarrow> Returns (Inr (restrict_bounds st)))
       = (case filter_loop now (q', 0, 0)
               (filter (\<lambda>pv. fst pv \<noteq> ''simulated'') (pre @ post)) of
            Panics \<Rightarrow> Panics
          | Returns (Inl err) \<Rightarrow> Returns (Inl err)
          | Returns (Inr st) \<Rightarrow> Returns (Inr (restrict_bounds st)))"
    using key by simp
qed

lemma Build_range:
  "GetIpsFromIpRange r = Some (s, e) \<Longrightarrow>
   BuildAlertRequestFromFilter now q [(''range'', r # vs)] =
     Returns (Inr (if s \<noteq> 0 \<and> e \<noteq> 0
                   then Where q (And (HasDecisionsWith (StartIPGTE s))
                                     (HasDecisionsWith (EndIPLTE e)))
                   else q))"
  by (simp add: BuildAlertRequestFromFilter_def filter_case_def index0_def Let_def
      restrict_bounds_def)

lemma Build_range_zero:
  assumes "GetIpsFromIpRange r = Some (0, e)"
    and "\<forall>pv \<in> set (pre @ post). fst pv \<noteq> ''ip'' \<and> fst pv \<noteq> ''range''"
  shows "BuildAlertRequestFromFilter now q (pre @ (''range'', r # vs) # post)
       = BuildAlertRequestFromFilter now q (pre @ post)"
proof (rule Build_zero_start[OF _ _ assms(2)])
  show "filter_case now st (''range'', r # vs) = Returns (Inr (fst st, 0, e))" for st
    using assms(1) by (simp add: filter_case_def index0_def Let_def)
qed simp

text \<open>
  C10. The restriction to the bounds of a \<^verbatim>\<open>range\<close> (or \<^verbatim>\<open>ip\<close>) filter is added to the
  query exactly when both bounds are non-zero. When the start of the range is 0 it is
  left out without an error: the filter compiles to the query of the empty filter, and,
  among further keys (none of them \<^verbatim>\<open>ip\<close> or \<^verbatim>\<open>range\<close>), to the query of the filter
  without it; the same holds for an \<^verbatim>\<open>ip\<close> whose range starts at 0.
\<close>

theorem zero_start_bound_drops_restriction:
  "GetIpsFromIpRange r = Some (s, e) \<Longrightarrow>
     BuildAlertRequestFromFilter now q [(''range'', [r])] =
       Returns (Inr (if s \<noteq> 0 \<and> e \<noteq> 0
                     then Where q (And (HasDecisionsWith (StartIPGTE s))
                                       (HasDecisionsWith (EndIPLTE e)))
                     else q))
   \<and> (s = 0 \<longrightarrow>
         BuildAlertRequestFromFilter now q [(''range'', [r])]
           = BuildAlertRequestFromFilter now q []
       \<and> QueryAlertWithFilter c now [(''range'', [r])] = QueryAlertWithFilter c now [])
   \<and> (s = 0 \<and> (\<forall>pv \<in> set (pre @ post). fst pv \<noteq> ''ip'' \<and> fst pv \<noteq> ''range'') \<longrightarrow>
         QueryAlertWithFilter c now (pre @ (''range'', [r]) # post)
           = QueryAlertWithFilter c now (pre @ post))
   \<and> (s = 0 \<and> IsIpv4 X \<and> r = X @ ''/32''
        \<and> (\<forall>pv \<in> set (pre @ post). fst pv \<noteq> ''ip'' \<and> fst pv \<noteq> ''range'') \<longrightarrow>
         QueryAlertWithFilter c now (pre @ (''ip'', [X]) # post)
           = QueryAlertWithFilter c now (pre @ post))"
proof -
  assume r: "GetIpsFromIpRange r = Some (s, e)"
  have a: "BuildAlertRequestFromFilter now q [(''range'', [r])] =
       Returns (Inr (if s \<noteq> 0 \<and> e \<noteq> 0
                     then Where q (And (HasDecisionsWith (StartIPGTE s))
                                       (HasDecisionsWith (EndIPLTE e)))
                     else q))" for q
    by (rule Build_range[OF r])
  have b: "QueryAlertWithFilter c now (pre @ (''range'', [r]) # post)
           = QueryAlertWithFilter c now (pre @ post)"
    if "s = 0" "\<forall>pv \<in> set (pre @ post). fst pv \<noteq> ''ip'' \<and> fst pv \<noteq> ''range''" for pre post
    using Build_range_zero[of r e pre post now "[]" "[]"] r that
    by (intro Query_cong) simp
  have d: "QueryAlertWithFilter c now (pre @ (''ip'', [X]) # post)
           = QueryAlertWithFilter c now (pre @ post)"
    if "s = 0" "IsIpv4 X" "r = X @ ''/32''"
       "\<forall>pv \<in> set (pre @ post). fst pv \<noteq> ''ip'' \<and> fst pv \<noteq> ''range''"
    using Query_cong[OF Build_ip_range[OF that(2), of now "[]" pre "[]" post "[]"], of c]
      b[OF that(1,4)] that(3) by simp
  show ?thesis using a[of q] a[of "[]"] b d
    by (simp add: Build_empty QueryAlertWithFilter_def)
qed

lemma GetIpsFromIpRange_all: "GetIpsFromIpRange ''0.0.0.0/0'' = Some (0, 4294967295)"
  by (simp add: GetIpsFromIpRange_def parse_ipv4_def parse_octet_def num_def is_digit_def
      digit_val_def)

theorem zero_start_bound_drops_restriction_witness:
  "GetIpsFromIpRange ''0.0.0.0/0'' = Some (0, 4294967295)
   \<and> BuildAlertRequestFromFilter example_now [] [(''range'', [''0.0.0.0/0''])] = Returns (Inr [])
   \<and> QueryAlertWithFilter example_client example_now [(''range'', [''0.0.0.0/0''])]
       = QueryAlertWithFilter example_client example_now []
   \<and> QueryAlertWithFilter example_client example_now
         [(''scenario'', [''ssh-bruteforce'']), (''range'', [''0.0.0.0/0''])]
       = QueryAlertWithFilter example_client example_now [(''scenario'', [''ssh-bruteforce''])]"
  using zero_start_bound_drops_restriction[OF GetIpsFromIpRange_all, of example_now "[]"
      example_client "[(''scenario'', [''ssh-bruteforce''])]" "[]" "''''"]
  by (simp add: GetIpsFromIpRange_all)

subsection \<open>Queries and deletion by filter\<close>

lemma v_alert_load_edges: "v_alert (load_edges s a) = a"
  by (simp add: load_edges_def)

lemma Query_single_predicate:
  "BuildAlertRequestFromFilter now [] f = Returns (Inr [p]) \<Longrightarrow> \<not> unavailable (Ent c) \<Longrightarrow>
   \<exists>views. QueryAlertWithFilter c now f = Returns (views, None)
      \<and> set (map v_alert views) = {a \<in> set (tbl_alerts (Ent c)). alert_holds (Ent c) p a}"
  by (auto simp: QueryAlertWithFilter_def Alert_Query_All_def v_alert_load_edges image_iff)

text \<open>
  C7. On a store that answers, the filter \<^verbatim>\<open>has_active_decision=true\<close> returns exactly the
  alerts that own a decision whose \<^verbatim>\<open>until\<close> is not before the present instant, and
  \<^verbatim>\<open>has_active_decision=false\<close> exactly the alerts that own no decision. A value that
  \<^verbatim>\<open>strconv.ParseBool\<close> rejects makes the compiler return the error \<open>ParseType\<close> and
  no query, and the query by filter returns that error with the empty list.
\<close>

theorem has_active_decision_filter:
  "\<not> unavailable (Ent c) \<Longrightarrow>
     (\<exists>views. QueryAlertWithFilter c now [(''has_active_decision'', [''true''])]
                = Returns (views, None)
        \<and> set (map v_alert views)
            = {a \<in> set (tbl_alerts (Ent c)).
                 \<exists>d \<in> set (tbl_decisions (Ent c)).
                    d_owner d = Some (a_ID a) \<and> now \<le> d_Until (d_fields d)})
   \<and> (\<exists>views. QueryAlertWithFilter c now [(''has_active_decision'', [''false''])]
                = Returns (views, None)
        \<and> set (map v_alert views)
            = {a \<in> set (tbl_alerts (Ent c)).
                 \<not> (\<exists>d \<in> set (tbl_decisions (Ent c)). d_owner d = Some (a_ID a))})
   \<and> (ParseBool v = None \<longrightarrow>
         BuildAlertRequestFromFilter now q [(''has_active_decision'', v # vs)]
           = Returns (Inl ParseType)
       \<and> QueryAlertWithFilter c now [(''has_active_decision'', v # vs)]
           = Returns ([], Some ParseType))"
proof -
  assume up: "\<not> unavailable (Ent c)"
  have t: "BuildAlertRequestFromFilter now [] [(''has_active_decision'', [''true''])]
         = Returns (Inr [HasDecisionsWith (UntilGTE now)])"
    by (simp add: BuildAlertRequestFromFilter_def filter_case_def index0_def Let_def
        ParseBool_def restrict_bounds_def Where_def)
  have f: "BuildAlertRequestFromFilter now [] [(''has_active_decision'', [''false''])]
         = Returns (Inr [Not HasDecisions])"
    by (simp add: BuildAlertRequestFromFilter_def filter_case_def index0_def Let_def
        ParseBool_def restrict_bounds_def Where_def)
  have e: "BuildAlertRequestFromFilter now q' [(''has_active_decision'', v # vs)]
         = Returns (Inl ParseType)" if "ParseBool v = None" for q'
    using that
    by (simp add: BuildAlertRequestFromFilter_def filter_case_def index0_def Let_def)
  show ?thesis
    using Query_single_predicate[OF t up] Query_single_predicate[OF f up] e[of q] e[of "[]"]
    by (simp add: QueryAlertWithFilter_def)
qed

theorem has_active_decision_filter_witness:
  "\<not> unavailable (Ent example_client)
   \<and> QueryAlertWithFilter example_client example_now [(''has_active_decision'', [''true''])]
       = Returns ([load_edges example_store (example_alert 1 1700000000000000000)], None)
   \<and> QueryAlertWithFilter example_client example_now [(''has_active_decision'', [''false''])]
       = Returns ([load_edges example_store (example_alert 2 1700000100000000000)], None)
   \<and> ParseBool ''maybe'' = None
   \<and> QueryAlertWithFilter example_client example_now [(''has_active_decision'', [''maybe''])]
       = Returns ([], Some ParseType)"
proof -
  have up: "\<not> unavailable (Ent example_client)"
    by (simp add: example_client_def example_store_def)
  have pb: "ParseBool ''maybe'' = None" by (simp add: ParseBool_def)
  have t: "QueryAlertWithFilter example_client example_now [(''has_active_decision'', [''true''])]
       = Returns ([load_edges example_store (example_alert 1 1700000000000000000)], None)"
    by (simp add: QueryAlertWithFilter_def BuildAlertRequestFromFilter_def filter_case_def
        index0_def Let_def ParseBool_def restrict_bounds_def Where_def Alert_Query_All_def
        example_client_def example_store_def example_alert_def example_decision_def
        example_now_def)
  have f: "QueryAlertWithFilter example_client example_now [(''has_active_decision'', [''false''])]
       = Returns ([load_edges example_store (example_alert 2 1700000100000000000)], None)"
    by (simp add: QueryAlertWithFilter_def BuildAlertRequestFromFilter_def filter_case_def
        index0_def Let_def ParseBool_def restrict_bounds_def Where_def Alert_Query_All_def
        example_client_def example_store_def example_alert_def example_decision_def
        example_now_def)
  show ?thesis
    using up pb t f has_active_decision_filter[OF up, of example_now "''maybe''" "[]" "[]"]
    by simp
qed

text \<open>
  C3. The claim is that a filter which does not compile makes \<^verbatim>\<open>DeleteAlertWithFilter\<close>
  return the error of the compiler. The query by filter does return it, with the empty
  list; \<^verbatim>\<open>DeleteAlertWithFilter\<close> assigns it to \<^verbatim>\<open>err\<close>, never reads it, runs its loop
  over the empty list and returns the empty list with no error. Nothing is deleted. So
  for the unknown key \<^verbatim>\<open>foo\<close> and for the address \<^verbatim>\<open>not-an-ip\<close>, on every client:
\<close>

theorem DeleteAlertWithFilter_drops_compile_error:
  "QueryAlertWithFilter c now [(''foo'', [''bar''])] = Returns ([], Some InvalidFilter)
   \<and> DeleteAlertWithFilter c now [(''foo'', [''bar''])] = Returns (c, [], None)
   \<and> QueryAlertWithFilter c now [(''ip'', [''not-an-ip''])] = Returns ([], Some InvalidIPOrRange)
   \<and> DeleteAlertWithFilter c now [(''ip'', [''not-an-ip''])] = Returns (c, [], None)"
proof -
  have a: "BuildAlertRequestFromFilter now [] [(''foo'', [''bar''])] = Returns (Inl InvalidFilter)"
    by (simp add: BuildAlertRequestFromFilter_def filter_case_def index0_def Let_def)
  have "parse_ipv4 ''not-an-ip'' = None"
    by (simp add: parse_ipv4_def parse_octet_def num_def is_digit_def)
  then have b: "BuildAlertRequestFromFilter now [] [(''ip'', [''not-an-ip''])]
              = Returns (Inl InvalidIPOrRange)"
    by (simp add: BuildAlertRequestFromFilter_def filter_case_def index0_def Let_def IsIpv4_def)
  show ?thesis
    by (simp add: DeleteAlertWithFilter_def QueryAlertWithFilter_def a b)
qed

subsection \<open>The retention flush\<close>

text \<open>
  \<^verbatim>\<open>time.ParseDuration\<close> rejects every instant that \<^verbatim>\<open>Format(time.RFC3339)\<close> writes:
  the year is a run of digits and the character after it, \<open>-\<close>, starts a unit that
  does not exist.
\<close>

lemma is_digit_digit_char: "is_digit (digit_char n)"
proof -
  have "48 + n mod 10 < 256" by linarith
  then have "of_char (digit_char n) = (48 + n mod 10 :: nat)"
    by (simp add: digit_char_def)
  then show ?thesis by (simp add: is_digit_def)
qed

lemma dec_digits: "list_all is_digit (dec n) \<and> dec n \<noteq> []"
proof (induction n rule: dec.induct)
  case (1 n)
  then show ?case
    by (subst (1 2) dec.simps) (auto simp: is_digit_digit_char)
qed

lemma not_digit: "\<not> is_digit (CHR ''-'')" "\<not> is_digit (CHR ''+'')" "\<not> is_digit (CHR ''.'')"
  by (simp_all add: is_digit_def)

lemma leadingInt_digits:
  "list_all is_digit ds \<Longrightarrow> \<not> is_digit c \<Longrightarrow>
   leadingInt x (ds @ c # r) = None \<or> (\<exists>v. leadingInt x (ds @ c # r) = Some (v, c # r))"
  by (induction ds arbitrary: x) (auto simp: Let_def)

lemma duration_component_dash:
  assumes "ds \<noteq> []" "list_all is_digit ds" "is_digit dc"
  shows "duration_component (ds @ CHR ''-'' # dc # r) = None"
proof -
  let ?s = "ds @ CHR ''-'' # dc # r"
  have "is_digit (hd ?s)" using assms(1,2) by (cases ds) auto
  then have nu: "\<not> unit_char (hd ?s)" by (simp add: unit_char_def)
  have u: "takeWhile unit_char (CHR ''-'' # dc # r) = ''-''"
    using assms(3) by (simp add: unit_char_def not_digit)
  from leadingInt_digits[OF assms(2) not_digit(1), of 0 "dc # r"]
  show ?thesis
  proof
    assume "leadingInt 0 ?s = None"
    then show ?thesis using nu by (simp add: duration_component_def)
  next
    assume "\<exists>v. leadingInt 0 ?s = Some (v, CHR ''-'' # dc # r)"
    then obtain v where v: "leadingInt 0 ?s = Some (v, CHR ''-'' # dc # r)" by blast
    show ?thesis using nu assms(1)
      by (simp add: duration_component_def v u unitMap_def Let_def)
  qed
qed

lemma ParseDuration_digits_dash:
  assumes "ds \<noteq> []" "list_all is_digit ds" "is_digit dc" "sg = [] \<or> sg = ''-''"
  shows "ParseDuration (sg @ ds @ CHR ''-'' # dc # r) = None"
proof -
  let ?s = "ds @ CHR ''-'' # dc # r"
  obtain d ds' where ds: "ds = d # ds'" using assms(1) by (cases ds) auto
  have "is_digit d" using assms(2) ds by simp
  then have dn: "d \<noteq> CHR ''-''" "d \<noteq> CHR ''+''" using not_digit by auto
  have c: "duration_components 0 ?s = None"
    by (subst duration_components.simps) (simp add: duration_component_dash[OF assms(1-3)])
  have n0: "?s \<noteq> ''0''" using ds by auto
  from assms(4) show ?thesis
  proof
    assume "sg = []"
    then show ?thesis using c n0 dn ds by (simp add: ParseDuration_def)
  next
    assume "sg = ''-''"
    then show ?thesis using c n0 by (simp add: ParseDuration_def)
  qed
qed

lemma appendInt_shape:
  "\<exists>sg ds. appendInt y w = sg @ ds \<and> ds \<noteq> [] \<and> list_all is_digit ds \<and> (sg = [] \<or> sg = ''-'')"
proof -
  let ?ds = "replicate (w - length (dec (nat \<bar>y\<bar>))) (CHR ''0'') @ dec (nat \<bar>y\<bar>)"
  have "is_digit (CHR ''0'')" by (simp add: is_digit_def)
  then have "list_all is_digit ?ds" using dec_digits[of "nat \<bar>y\<bar>"] by (auto simp: list_all_iff)
  moreover have "?ds \<noteq> []" using dec_digits by simp
  moreover have "appendInt y w = (if y < 0 then ''-'' else []) @ ?ds"
    by (simp add: appendInt_def Let_def)
  ultimately show ?thesis
    by (intro exI[of _ "if y < 0 then ''-'' else []"] exI[of _ ?ds]) simp
qed

lemma ParseDuration_Format_RFC3339: "ParseDuration (Format_RFC3339 offset t) = None"
proof -
  obtain y m d where ymd: "civil_from_days ((t div 1000000000 + offset) div 86400) = (y, m, d)"
    by (cases "civil_from_days ((t div 1000000000 + offset) div 86400)") auto
  obtain sg ds where s: "appendInt y 4 = sg @ ds" "ds \<noteq> []" "list_all is_digit ds"
      "sg = [] \<or> sg = ''-''"
    using appendInt_shape by blast
  have "\<exists>r. Format_RFC3339 offset t = sg @ ds @ CHR ''-'' # digit_char (nat m div 10) # r"
    by (simp add: Format_RFC3339_def Let_def ymd s(1) pad2_def)
  then obtain r where
    "Format_RFC3339 offset t = sg @ ds @ CHR ''-'' # digit_char (nat m div 10) # r"
    by blast
  then show ?thesis
    using ParseDuration_digits_dash[OF s(2,3) is_digit_digit_char s(4)] by simp
qed

lemma Build_until_instant:
  "BuildAlertRequestFromFilter now q [(''until'', [Format_RFC3339 offset t])]
     = Returns (Inl DurationSyntax)"
  by (simp add: BuildAlertRequestFromFilter_def filter_case_def index0_def Let_def
      ParseDuration_Format_RFC3339)

text \<open>So the first pass of the flush changes nothing and counts nothing.\<close>

lemma flush_age_nothing: "flush_age c now MaxAge = Returns (c, None, 0)"
  by (simp add: flush_age_def DeleteAlertWithFilter_def QueryAlertWithFilter_def
      Build_until_instant Let_def)

text \<open>
  C1. The claim is that for \<^verbatim>\<open>MaxAge > 0\<close> the flush deletes the alerts created at or
  before \<^verbatim>\<open>now - MaxAge\<close> and counts them. The flush passes the cutoff to the key
  \<^verbatim>\<open>until\<close> as a formatted instant, where the compiler parses a duration: the
  compilation fails on every instant, \<^verbatim>\<open>DeleteAlertWithFilter\<close> drops the error and
  returns the empty list, and the first pass deletes and counts nothing. \<^verbatim>\<open>MaxAge\<close> has
  no effect on the result of the flush. In the example, none of the three alerts, all
  created more than a month before the cutoff of one hour, is deleted.
\<close>

theorem flush_by_age_deletes_nothing:
  "QueryAlertWithFilter c now [(''until'', [Format_RFC3339 (Local c) t])]
     = Returns ([], Some DurationSyntax)
   \<and> flush_age c now MaxAge = Returns (c, None, 0)
   \<and> FlushAlerts c now MaxAge MaxItems = FlushAlerts c now 0 MaxItems
   \<and> Format_RFC3339 (Local example_client) (Add example_now (neg64 3600000000000))
       = ''2023-12-31T23:00:00Z''
   \<and> map a_CreatedAt (tbl_alerts (Ent example_client))
       = [1700000000000000000, 1700000100000000000, 1700000200000000000]
   \<and> Add example_now (neg64 3600000000000) = 1704063600000000000
   \<and> FlushAlerts example_client example_now 3600000000000 0
       = Returns (example_client, None, Some 0)"
proof -
  have n: "Add example_now (neg64 3600000000000) = 1704063600000000000"
    by (simp add: example_now_def Add_def neg64_def)
  have "Format_RFC3339 0 1704063600000000000 = ''2023-12-31T23:00:00Z''"
    by code_simp
  then have f: "Format_RFC3339 (Local example_client) 1704063600000000000
       = ''2023-12-31T23:00:00Z''"
    by (simp add: example_client_def)
  have m: "map a_CreatedAt (tbl_alerts (Ent example_client))
       = [1700000000000000000, 1700000100000000000, 1700000200000000000]"
    by (simp add: example_client_def example_store_def example_alert_def)
  show ?thesis
    by (simp add: f m n QueryAlertWithFilter_def Build_until_instant FlushAlerts_def
        flush_age_nothing flush_count_def)
qed

text \<open>The cascading delete of an alert that is in the store, on a store that answers.\<close>

lemma owner_with_IDEQ:
  "owner_with s (IDEQ i) fk \<longleftrightarrow> fk = Some i \<and> (\<exists>a \<in> set (tbl_alerts s). a_ID a = i)"
  by (auto simp: owner_with_def)

lemma without_empty: "without {} s = s"
  by (simp add: without_def)

lemma without_without: "without D (without E s) = without (E \<union> D) s"
  by (simp add: without_def image_Un)

lemma DeleteAlertGraph_present:
  assumes "\<not> unavailable (Ent c)" and "\<exists>a \<in> set (tbl_alerts (Ent c)). a_ID a = a_ID (v_alert v)"
  shows "DeleteAlertGraph c v = (c\<lparr>Ent := without {a_ID (v_alert v)} (Ent c)\<rparr>, None)"
  using assms
  by (simp add: DeleteAlertGraph_def Event_Delete_def Meta_Delete_def Decision_Delete_def
      Alert_DeleteOne_def owner_with_IDEQ without_def)

lemma flush_oldest_present:
  assumes "\<not> unavailable (Ent c)"
    and "distinct (map (\<lambda>v. a_ID (v_alert v)) vs)"
    and "\<forall>v \<in> set vs. \<exists>a \<in> set (tbl_alerts (Ent c)). a_ID a = a_ID (v_alert v)"
  shows "flush_oldest c nb k vs =
           (c\<lparr>Ent := without ((\<lambda>v. a_ID (v_alert v)) ` set (take (nat (nb - int k)) vs)) (Ent c)\<rparr>,
            None)"
  using assms
proof (induction vs arbitrary: c k)
  case Nil
  then show ?case by (simp add: without_empty)
next
  case (Cons v vs)
  show ?case
  proof (cases "int k < nb")
    case True
    let ?c = "c\<lparr>Ent := without {a_ID (v_alert v)} (Ent c)\<rparr>"
    have del: "DeleteAlertGraph c v = (?c, None)"
      using Cons.prems by (intro DeleteAlertGraph_present) auto
    have up: "\<not> unavailable (Ent ?c)" using Cons.prems(1) by (simp add: without_def)
    have dist: "distinct (map (\<lambda>v. a_ID (v_alert v)) vs)" using Cons.prems(2) by simp
    have pres: "\<forall>w \<in> set vs. \<exists>a \<in> set (tbl_alerts (Ent ?c)). a_ID a = a_ID (v_alert w)"
    proof
      fix w
      assume w: "w \<in> set vs"
      then obtain a where a: "a \<in> set (tbl_alerts (Ent c))" "a_ID a = a_ID (v_alert w)"
        using Cons.prems(3) by auto
      have "a_ID (v_alert v) \<notin> (\<lambda>v. a_ID (v_alert v)) ` set vs"
        using Cons.prems(2) by simp
      moreover have "a_ID (v_alert w) \<in> (\<lambda>v. a_ID (v_alert v)) ` set vs"
        using w by auto
      ultimately have "a_ID (v_alert w) \<noteq> a_ID (v_alert v)" by auto
      then have "a \<in> set (tbl_alerts (Ent ?c))" using a by (simp add: without_def)
      then show "\<exists>a \<in> set (tbl_alerts (Ent ?c)). a_ID a = a_ID (v_alert w)" using a(2) by blast
    qed
    have n: "nat (nb - int k) = Suc (nat (nb - int (Suc k)))" using True by simp
    show ?thesis
      using True del Cons.IH[OF up dist pres, of "Suc k"]
      by (simp add: n without_without)
  next
    case False
    have dist: "distinct (map (\<lambda>v. a_ID (v_alert v)) vs)" using Cons.prems(2) by simp
    have pres: "\<forall>w \<in> set vs. \<exists>a \<in> set (tbl_alerts (Ent c)). a_ID a = a_ID (v_alert w)"
      using Cons.prems(3) by simp
    show ?thesis
      using False Cons.IH[OF Cons.prems(1) dist pres, of "Suc k"]
      by simp
  qed
qed

lemma flush_count_over:
  assumes up: "\<not> unavailable (Ent c)"
    and dist: "distinct (map a_ID (tbl_alerts (Ent c)))"
    and over: "0 < MaxItems" "MaxItems < int (length (tbl_alerts (Ent c)))"
  shows "flush_count c MaxItems tot =
           (c\<lparr>Ent := without (a_ID ` set (take (length (tbl_alerts (Ent c)) - nat MaxItems)
                                            (sort_key a_CreatedAt (tbl_alerts (Ent c)))))
                          (Ent c)\<rparr>,
            None, tot + (int (length (tbl_alerts (Ent c))) - MaxItems))"
proof -
  let ?as = "tbl_alerts (Ent c)"
  let ?vs = "map (load_edges (Ent c)) (sort_key a_CreatedAt ?as)"
  have n: "nat (int (length ?as) - MaxItems) = length ?as - nat MaxItems"
    using over by simp
  have d: "distinct (map (\<lambda>v. a_ID (v_alert v)) ?vs)"
    using dist by (simp add: o_def v_alert_load_edges distinct_map)
  have p: "\<forall>v \<in> set ?vs. \<exists>a \<in> set ?as. a_ID a = a_ID (v_alert v)"
    by (auto simp: v_alert_load_edges)
  have i: "(\<lambda>v. a_ID (v_alert v)) ` set (take m ?vs) = a_ID ` set (take m (sort_key a_CreatedAt ?as))"
    for m
    by (simp add: take_map image_image v_alert_load_edges)
  have fo: "flush_oldest c (int (length ?as) - MaxItems) 0 ?vs =
      (c\<lparr>Ent := without (a_ID ` set (take (length ?as - nat MaxItems)
                                         (sort_key a_CreatedAt ?as))) (Ent c)\<rparr>, None)"
    using flush_oldest_present[OF up d p, of "int (length ?as) - MaxItems" 0]
    by (simp only: i n of_nat_0 diff_zero)
  show ?thesis
    using up over
    by (simp add: flush_count_def Alert_Query_Count_def Alert_Query_All_def Let_def fo)
qed

text \<open>What is left when the first \<open>n\<close> alerts in order of creation are taken out.\<close>

lemma remaining_after_oldest:
  assumes "distinct (map a_ID as)"
  shows "set (filter (\<lambda>a. a_ID a \<notin> a_ID ` set (take n (sort_key a_CreatedAt as))) as)
           = set (drop n (sort_key a_CreatedAt as))"
    and "length (filter (\<lambda>a. a_ID a \<notin> a_ID ` set (take n (sort_key a_CreatedAt as))) as)
           = length as - n"
proof -
  let ?xs = "sort_key a_CreatedAt as"
  have inj: "inj_on a_ID (set as)" and das: "distinct as"
    using assms by (auto simp: distinct_map)
  have dxs: "distinct ?xs" using das by simp
  have sub: "set (take n ?xs) \<subseteq> set as" using set_take_subset[of n ?xs] by simp
  have mem: "a_ID a \<in> a_ID ` set (take n ?xs) \<longleftrightarrow> a \<in> set (take n ?xs)" if "a \<in> set as" for a
    using inj_on_image_mem_iff[OF inj that sub] .
  have split: "set as = set (take n ?xs) \<union> set (drop n ?xs)"
    using set_append[of "take n ?xs" "drop n ?xs"] by simp
  have disj: "set (take n ?xs) \<inter> set (drop n ?xs) = {}"
    using dxs distinct_append[of "take n ?xs" "drop n ?xs"] by simp
  show s: "set (filter (\<lambda>a. a_ID a \<notin> a_ID ` set (take n ?xs)) as) = set (drop n ?xs)"
    using mem split disj by auto
  have "distinct (filter (\<lambda>a. a_ID a \<notin> a_ID ` set (take n ?xs)) as)" using das by simp
  then have "length (filter (\<lambda>a. a_ID a \<notin> a_ID ` set (take n ?xs)) as)
      = card (set (drop n ?xs))"
    using s distinct_card by metis
  also have "\<dots> = length (drop n ?xs)" using dxs by (simp add: distinct_card)
  finally show "length (filter (\<lambda>a. a_ID a \<notin> a_ID ` set (take n ?xs)) as) = length as - n"
    by simp
qed

lemma oldest_before_newest:
  "\<forall>a \<in> set (take n (sort_key a_CreatedAt as)). \<forall>b \<in> set (drop n (sort_key a_CreatedAt as)).
     a_CreatedAt a \<le> a_CreatedAt b"
proof -
  let ?xs = "sort_key a_CreatedAt as"
  have "sorted (map a_CreatedAt (take n ?xs @ drop n ?xs))" by simp
  then show ?thesis unfolding map_append sorted_append by auto
qed

text \<open>
  C5. On a store that answers and whose alerts have distinct identifiers: when
  \<^verbatim>\<open>MaxItems\<close> is positive and below the number of alerts, the flush deletes, with their
  events, metas and decisions, the first (number - \<^verbatim>\<open>MaxItems\<close>) alerts in ascending
  order of creation and logs that number; the alerts that remain are the
  \<^verbatim>\<open>MaxItems\<close> last in that order, none of them created before a deleted one. When
  \<^verbatim>\<open>MaxItems\<close> is not positive or not below the number of alerts, the flush changes
  nothing, logs 0 and returns no error. This holds for every \<^verbatim>\<open>MaxAge\<close>.
\<close>

theorem flush_by_count:
  "\<not> unavailable (Ent c) \<Longrightarrow> distinct (map a_ID (tbl_alerts (Ent c))) \<Longrightarrow>
     (0 < MaxItems \<and> MaxItems < int (length (tbl_alerts (Ent c))) \<longrightarrow>
        (let n = length (tbl_alerts (Ent c)) - nat MaxItems;
             ordered = sort_key a_CreatedAt (tbl_alerts (Ent c));
             left = without (a_ID ` set (take n ordered)) (Ent c)
         in FlushAlerts c now MaxAge MaxItems
              = Returns (c\<lparr>Ent := left\<rparr>, None,
                         Some (int (length (tbl_alerts (Ent c))) - MaxItems))
            \<and> set (tbl_alerts left) = set (drop n ordered)
            \<and> length (tbl_alerts left) = nat MaxItems
            \<and> (\<forall>a \<in> set (take n ordered). \<forall>b \<in> set (tbl_alerts left).
                  a_CreatedAt a \<le> a_CreatedAt b)))
   \<and> (MaxItems \<le> 0 \<or> int (length (tbl_alerts (Ent c))) \<le> MaxItems \<longrightarrow>
        FlushAlerts c now MaxAge MaxItems = Returns (c, None, Some 0))"
proof -
  assume up: "\<not> unavailable (Ent c)" and dist: "distinct (map a_ID (tbl_alerts (Ent c)))"
  let ?as = "tbl_alerts (Ent c)"
  let ?n = "length ?as - nat MaxItems"
  let ?left = "without (a_ID ` set (take ?n (sort_key a_CreatedAt ?as))) (Ent c)"
  have rest: "FlushAlerts c now MaxAge MaxItems = Returns (c, None, Some 0)"
    if "MaxItems \<le> 0 \<or> int (length ?as) \<le> MaxItems"
    using that up
    by (auto simp: FlushAlerts_def flush_age_nothing flush_count_def Alert_Query_Count_def)
  have main: "FlushAlerts c now MaxAge MaxItems
        = Returns (c\<lparr>Ent := ?left\<rparr>, None, Some (int (length ?as) - MaxItems))
      \<and> set (tbl_alerts ?left) = set (drop ?n (sort_key a_CreatedAt ?as))
      \<and> length (tbl_alerts ?left) = nat MaxItems
      \<and> (\<forall>a \<in> set (take ?n (sort_key a_CreatedAt ?as)). \<forall>b \<in> set (tbl_alerts ?left).
            a_CreatedAt a \<le> a_CreatedAt b)"
    if over: "0 < MaxItems" "MaxItems < int (length ?as)"
  proof -
    have f: "FlushAlerts c now MaxAge MaxItems
        = Returns (c\<lparr>Ent := ?left\<rparr>, None, Some (int (length ?as) - MaxItems))"
      by (simp add: FlushAlerts_def flush_age_nothing flush_count_over[OF up dist over])
    have t: "tbl_alerts ?left
        = filter (\<lambda>a. a_ID a \<notin> a_ID ` set (take ?n (sort_key a_CreatedAt ?as))) ?as"
      by (simp add: without_def)
    have l: "length ?as - ?n = nat MaxItems" using over by simp
    show ?thesis
      using f remaining_after_oldest[OF dist, of ?n] oldest_before_newest[of ?n ?as]
      unfolding t by (simp add: l)
  qed
  show ?thesis unfolding Let_def using rest main by blast
qed

theorem flush_by_count_witness:
  "\<not> unavailable (Ent example_client)
   \<and> distinct (map a_ID (tbl_alerts (Ent example_client)))
   \<and> FlushAlerts example_client example_now 0 2
       = Returns (example_client\<lparr>Ent := example_store\<lparr>
                    tbl_alerts := [example_alert 2 1700000100000000000,
                                   example_alert 3 1700000200000000000],
                    tbl_decisions := [example_decision 2 1704063600000000000 (Some 3)]\<rparr>\<rparr>,
                  None, Some 1)
   \<and> FlushAlerts example_client example_now 0 3 = Returns (example_client, None, Some 0)
   \<and> FlushAlerts example_client example_now 0 0 = Returns (example_client, None, Some 0)"
proof -
  have up: "\<not> unavailable (Ent example_client)"
    by (simp add: example_client_def example_store_def)
  have tbl: "tbl_alerts (Ent example_client)
      = [example_alert 1 1700000000000000000, example_alert 2 1700000100000000000,
         example_alert 3 1700000200000000000]"
    by (simp add: example_client_def example_store_def)
  have dist: "distinct (map a_ID (tbl_alerts (Ent example_client)))"
    by (simp add: tbl example_alert_def)
  have ordered: "sort_key a_CreatedAt (tbl_alerts (Ent example_client))
      = tbl_alerts (Ent example_client)"
    by (simp add: tbl example_alert_def)
  have left: "without {1} (Ent example_client)
            = example_store\<lparr>
                    tbl_alerts := [example_alert 2 1700000100000000000,
                                   example_alert 3 1700000200000000000],
                    tbl_decisions := [example_decision 2 1704063600000000000 (Some 3)]\<rparr>"
    by (simp add: without_def example_client_def example_store_def example_alert_def
        example_decision_def)
  have two: "FlushAlerts example_client example_now 0 2
       = Returns (example_client\<lparr>Ent := without {1} (Ent example_client)\<rparr>, None, Some 1)"
    using flush_by_count[OF up dist, of 2 example_now 0]
    by (simp add: Let_def ordered tbl example_alert_def)
  have three: "FlushAlerts example_client example_now 0 3 = Returns (example_client, None, Some 0)"
    using flush_by_count[OF up dist, of 3 example_now 0] by (simp add: tbl)
  have zero: "FlushAlerts example_client example_now 0 0 = Returns (example_client, None, Some 0)"
    using flush_by_count[OF up dist, of 0 example_now 0] by simp
  show ?thesis unfolding left[symmetric] using up dist two three zero by blast
qed

subsection \<open>Ingestion\<close>

lemma parse_start: "Parse_RFC3339 ''2024-01-01T00:00:00Z'' = Some 1704067200000000000"
  by (simp add: Parse_RFC3339_def num_def zone_offset_def is_digit_def digit_val_def
      days_in_month_def days_from_civil_def)

lemma parse_stop: "Parse_RFC3339 ''2024-01-01T00:05:00Z'' = Some 1704067500000000000"
  by (simp add: Parse_RFC3339_def num_def zone_offset_def is_digit_def digit_val_def
      days_in_month_def days_from_civil_def)

lemma parse_4h: "ParseDuration ''4h'' = Some 14400000000000"
  by (simp add: ParseDuration_def duration_components.simps duration_component_def unitMap_def
      unit_char_def is_digit_def digit_val_def)

lemma Itoa_1_2: "Itoa 1 = ''1''" "Itoa 2 = ''2''"
  by code_simp+

text \<open>Creating children changes neither the alerts nor what the client calls.\<close>

lemma Event_CreateBulk_alerts:
  "Event_CreateBulk s bs = (s', r) \<Longrightarrow> tbl_alerts s' = tbl_alerts s \<and> alert_seq s' = alert_seq s"
  by (auto simp: Event_CreateBulk_def Let_def split: if_splits)

lemma Meta_CreateBulk_alerts:
  "Meta_CreateBulk s bs = (s', r) \<Longrightarrow> tbl_alerts s' = tbl_alerts s \<and> alert_seq s' = alert_seq s"
  by (auto simp: Meta_CreateBulk_def Let_def split: if_splits)

lemma Decision_CreateBulk_alerts:
  "Decision_CreateBulk s bs = (s', r) \<Longrightarrow> tbl_alerts s' = tbl_alerts s \<and> alert_seq s' = alert_seq s"
  by (auto simp: Decision_CreateBulk_def Let_def split: if_splits)

lemma create_events_alerts:
  "create_events c x ev = (c', r) \<Longrightarrow>
   tbl_alerts (Ent c') = tbl_alerts (Ent c) \<and> alert_seq (Ent c') = alert_seq (Ent c)
   \<and> machine_lookup c' = machine_lookup c"
  by (auto simp: create_events_def split: if_splits sum.splits prod.splits
           dest: Event_CreateBulk_alerts)

lemma create_metas_alerts:
  "create_metas c x ms = (c', r) \<Longrightarrow>
   tbl_alerts (Ent c') = tbl_alerts (Ent c) \<and> alert_seq (Ent c') = alert_seq (Ent c)
   \<and> machine_lookup c' = machine_lookup c"
  by (auto simp: create_metas_def split: if_splits sum.splits prod.splits
           dest: Meta_CreateBulk_alerts)

lemma create_decisions_alerts:
  "create_decisions c now x ds = (c', r) \<Longrightarrow>
   tbl_alerts (Ent c') = tbl_alerts (Ent c) \<and> alert_seq (Ent c') = alert_seq (Ent c)
   \<and> machine_lookup c' = machine_lookup c"
  by (auto simp: create_decisions_def split: if_splits sum.splits prod.splits
           dest: Decision_CreateBulk_alerts)

text \<open>The bulk creation of alerts appends one row per builder, or changes nothing.\<close>

lemma attach_edges_alerts:
  "attach_edges s aid b = Some s' \<Longrightarrow> tbl_alerts s' = tbl_alerts s \<and> alert_seq s' = alert_seq s"
  by (auto simp: attach_edges_def split: if_splits)

lemma attach_all_alerts:
  "attach_all s ps = Some s' \<Longrightarrow> tbl_alerts s' = tbl_alerts s \<and> alert_seq s' = alert_seq s"
proof (induction ps arbitrary: s)
  case Nil
  then show ?case by simp
next
  case (Cons p ps)
  obtain aid b where p: "p = (aid, b)" by (cases p) auto
  from Cons.prems p obtain s1 where s1: "attach_edges s aid b = Some s1" "attach_all s1 ps = Some s'"
    by (auto split: option.splits)
  show ?case using Cons.IH[OF s1(2)] attach_edges_alerts[OF s1(1)] by simp
qed

lemma map_zip_snd: "length xs = length ys \<Longrightarrow> map (\<lambda>x. g (snd x)) (zip xs ys) = map g ys"
  by (induction xs ys rule: list_induct2) auto

lemma Alert_CreateBulk_Inl: "Alert_CreateBulk s now bs = (s', Inl err) \<Longrightarrow> s' = s"
  by (auto simp: Alert_CreateBulk_def Let_def split: if_splits option.splits)

lemma Alert_CreateBulk_Inr:
  assumes "Alert_CreateBulk s now bs = (s', Inr rows)"
  shows "tbl_alerts s' = tbl_alerts s @ rows"
    and "alert_seq s' = alert_seq s + length rows"
    and "length rows = length bs"
    and "map a_ID rows = [alert_seq s ..< alert_seq s + length rows]"
    and "map (\<lambda>a. (a_fields a, a_owner a)) rows = map (\<lambda>b. (ac_fields b, ac_owner b)) bs"
proof -
  let ?ids = "[alert_seq s ..< alert_seq s + length bs]"
  let ?rows = "map2 (\<lambda>i b. \<lparr>a_ID = i, a_CreatedAt = now, a_fields = ac_fields b,
                              a_owner = ac_owner b\<rparr>) ?ids bs"
  have r: "rows = ?rows \<and> tbl_alerts s' = tbl_alerts s @ ?rows
           \<and> alert_seq s' = alert_seq s + length bs"
  proof (cases "bs = []")
    case True
    then show ?thesis using assms by (simp add: Alert_CreateBulk_def)
  next
    case False
    then obtain s1 where
      "attach_all (s\<lparr>tbl_alerts := tbl_alerts s @ ?rows, alert_seq := alert_seq s + length bs\<rparr>)
         (zip ?ids bs) = Some s1" "s' = s1" "rows = ?rows"
      using assms by (auto simp: Alert_CreateBulk_def Let_def split: if_splits option.splits)
    then show ?thesis using attach_all_alerts by fastforce
  qed
  have l: "length ?rows = length bs" by simp
  show "tbl_alerts s' = tbl_alerts s @ rows" using r by simp
  show "length rows = length bs" using r l by simp
  then show "alert_seq s' = alert_seq s + length rows" using r by simp
  have "map a_ID ?rows = ?ids" by (simp add: o_def split_def)
  then show "map a_ID rows = [alert_seq s ..< alert_seq s + length rows]" using r l by simp
  have "map (\<lambda>a. (a_fields a, a_owner a)) ?rows = map (\<lambda>b. (ac_fields b, ac_owner b)) bs"
    using map_zip_snd[of ?ids bs "\<lambda>b. (ac_fields b, ac_owner b)"]
    by (simp add: o_def split_def)
  then show "map (\<lambda>a. (a_fields a, a_owner a)) rows = map (\<lambda>b. (ac_fields b, ac_owner b)) bs"
    using r by simp
qed

end
